theory Spec2Isabelle
  imports Complex_Main "HOL-Library.Sublist"
begin

section \<open>Python values and exceptions\<close>

text \<open>
  The route handlers of StockWatch move dynamically typed values between the JSON request,
  the rows of a stored procedure and the JSON response. \<open>pyval\<close> is the part of Python's
  value universe these handlers touch. A \<open>dict\<close> keeps insertion order, so it is an
  association list. A finite \<open>float\<close> is the rational number it denotes and a \<open>Decimal\<close>
  (what the database driver returns for a DECIMAL column) is its rational value. A naive
  \<open>datetime\<close> is represented by the text \<open>isoformat()\<close> prints for it, for example
  \<open>2024-05-01T12:00:00\<close>.
\<close>

datatype pyval =
    PNone
  | PBool bool
  | PInt int
  | PFloat rat
  | PDecimal rat
  | PStr string
  | PDateTime string
  | PList "pyval list"
  | PDict "(string \<times> pyval) list"

datatype exn_kind =
    IndexError
  | TypeError
  | ValueError
  | AttributeError
  | OverflowError
  | KeyError
  | SQLAlchemyError
  | StripeError
  | SignatureVerificationError
  | BadRequest

text \<open>An exception object: its class and the text \<open>str(e)\<close> prints.\<close>

datatype exn = Exn (exn_class: exn_kind) (exn_str: string)

type_synonym row = "pyval list"
type_synonym params = "(string \<times> pyval) list"

section \<open>The procedure gateway: \<open>Database.call_procedure\<close> (app/utils/db.py)\<close>










section \<open>Python's built-in operations, as far as the handlers use them\<close>

text \<open>
  Strings are sequences of code points below 256 (Latin-1), the range of \<open>char\<close>.
  \<open>py_isspace\<close> is \<open>str.isspace\<close> on one character, which is also what \<open>\s\<close> matches in
  a \<open>str\<close> pattern; \<open>py_isdigit\<close> is what \<open>\d\<close> matches.
\<close>

definition py_isspace :: "char \<Rightarrow> bool" where
  "py_isspace c \<longleftrightarrow> (of_char c :: nat) \<in> {9, 10, 11, 12, 13, 28, 29, 30, 31, 32, 133, 160}"

definition py_isdigit :: "char \<Rightarrow> bool" where
  "py_isdigit c \<longleftrightarrow> 48 \<le> (of_char c :: nat) \<and> (of_char c :: nat) \<le> 57"

definition ascii_letter :: "char \<Rightarrow> bool" where
  "ascii_letter c \<longleftrightarrow>
     (65 \<le> (of_char c :: nat) \<and> (of_char c :: nat) \<le> 90)
     \<or> (97 \<le> (of_char c :: nat) \<and> (of_char c :: nat) \<le> 122)"

definition py_lower_char :: "char \<Rightarrow> char" where
  "py_lower_char c =
     (let n = (of_char c :: nat)
      in if 65 \<le> n \<and> n \<le> 90 then ''abcdefghijklmnopqrstuvwxyz'' ! (n - 65)
         else if 192 \<le> n \<and> n \<le> 222 \<and> n \<noteq> 215 then char_of (n + 32)
         else c)"

definition py_lower :: "string \<Rightarrow> string" where
  "py_lower s = map py_lower_char s"

definition py_strip :: "string \<Rightarrow> string" where
  "py_strip s = rev (dropWhile py_isspace (rev (dropWhile py_isspace s)))"

text \<open>\<open>s.startswith(p)\<close>\<close>

fun startswith :: "string \<Rightarrow> string \<Rightarrow> bool" where
  "startswith s [] = True"
| "startswith [] (p # ps) = False"
| "startswith (c # cs) (p # ps) = (c = p \<and> startswith cs ps)"

text \<open>Truth value testing: \<open>if x\<close>, \<open>not x\<close>, \<open>bool(x)\<close>.\<close>

fun truthy :: "pyval \<Rightarrow> bool" where
  "truthy PNone = False"
| "truthy (PBool b) = b"
| "truthy (PInt i) = (i \<noteq> 0)"
| "truthy (PFloat r) = (r \<noteq> 0)"
| "truthy (PDecimal r) = (r \<noteq> 0)"
| "truthy (PStr s) = (s \<noteq> [])"
| "truthy (PDateTime s) = True"
| "truthy (PList xs) = (xs \<noteq> [])"
| "truthy (PDict kvs) = (kvs \<noteq> [])"

text \<open>\<open>row[i]\<close> for a constant index \<open>i \<ge> 0\<close> on a result row (a tuple).\<close>

definition row_get :: "row \<Rightarrow> nat \<Rightarrow> exn + pyval" where
  "row_get r i = (if i < length r then Inr (r ! i) else Inl (Exn IndexError ''tuple index out of range''))"

text \<open>\<open>d.get(key, default)\<close>; only a dict has the method.\<close>

fun dict_get :: "pyval \<Rightarrow> string \<Rightarrow> pyval \<Rightarrow> exn + pyval" where
  "dict_get (PDict kvs) k dflt = Inr (case map_of kvs k of None \<Rightarrow> dflt | Some v \<Rightarrow> v)"
| "dict_get v k dflt = Inl (Exn AttributeError ''object has no attribute 'get' '')"

text \<open>\<open>v.strip()\<close> and \<open>v.lower()\<close>; only a \<open>str\<close> has the methods.\<close>

fun str_strip :: "pyval \<Rightarrow> exn + string" where
  "str_strip (PStr s) = Inr (py_strip s)"
| "str_strip v = Inl (Exn AttributeError ''object has no attribute 'strip' '')"

text \<open>Decimal digits, for \<open>str(n)\<close> of an \<open>int\<close>.\<close>

fun nat_str :: "nat \<Rightarrow> string" where
  "nat_str n =
     (if n < 10 then [''0123456789'' ! n]
      else nat_str (n div 10) @ [''0123456789'' ! (n mod 10)])"

definition int_str :: "int \<Rightarrow> string" where
  "int_str i = (if i < 0 then CHR ''-'' # nat_str (nat (- i)) else nat_str (nat i))"

text \<open>
  \<open>str(v)\<close>. The text of a \<open>float\<close>, a \<open>Decimal\<close>, a list or a dict is left to the
  parameter \<open>other\<close>; \<open>str\<close> of a \<open>datetime\<close> is its ISO text with a blank for the \<open>T\<close>.
\<close>

fun py_str :: "(pyval \<Rightarrow> string) \<Rightarrow> pyval \<Rightarrow> string" where
  "py_str other PNone = ''None''"
| "py_str other (PBool b) = (if b then ''True'' else ''False'')"
| "py_str other (PInt i) = int_str i"
| "py_str other (PStr s) = s"
| "py_str other (PDateTime s) = map (\<lambda>c. if c = CHR ''T'' then CHR '' '' else c) s"
| "py_str other v = other v"

text \<open>
  \<open>int(s)\<close> for a \<open>str\<close>: blanks around, an optional sign, then decimal digits in which
  single underscores may separate digits. The blanks \<open>int\<close> drops are the ASCII ones
  (tab, line feed, vertical tab, form feed, carriage return, space) and, of the code
  points from 128 on, those that are spaces (U+0085 and U+00A0); unlike \<open>str.strip\<close> it
  keeps the separators U+001C to U+001F, which make the text invalid.
\<close>

definition int_isspace :: "char \<Rightarrow> bool" where
  "int_isspace c \<longleftrightarrow> (of_char c :: nat) \<in> {9, 10, 11, 12, 13, 32, 133, 160}"

definition int_strip :: "string \<Rightarrow> string" where
  "int_strip s = rev (dropWhile int_isspace (rev (dropWhile int_isspace s)))"

fun parse_digits :: "string \<Rightarrow> bool \<Rightarrow> int \<Rightarrow> int option" where
  "parse_digits [] prev_digit acc = (if prev_digit then Some acc else None)"
| "parse_digits (c # cs) prev_digit acc =
     (if py_isdigit c then parse_digits cs True (acc * 10 + int (of_char c - 48))
      else if c = CHR ''_'' \<and> prev_digit then parse_digits cs False acc
      else None)"

definition int_of_str :: "string \<Rightarrow> int option" where
  "int_of_str s =
     (case int_strip s of
        [] \<Rightarrow> None
      | c # cs \<Rightarrow>
          if c = CHR ''-'' then map_option uminus (parse_digits cs False 0)
          else if c = CHR ''+'' then parse_digits cs False 0
          else parse_digits (c # cs) False 0)"

text \<open>\<open>int(v)\<close>; truncation towards zero for a \<open>float\<close> or a \<open>Decimal\<close>.\<close>

definition trunc_rat :: "rat \<Rightarrow> int" where
  "trunc_rat r = (if 0 \<le> r then \<lfloor>r\<rfloor> else \<lceil>r\<rceil>)"

fun py_int :: "pyval \<Rightarrow> exn + int" where
  "py_int (PInt i) = Inr i"
| "py_int (PBool b) = Inr (if b then 1 else 0)"
| "py_int (PFloat r) = Inr (trunc_rat r)"
| "py_int (PDecimal r) = Inr (trunc_rat r)"
| "py_int (PStr s) =
     (case int_of_str s of
        Some i \<Rightarrow> Inr i
      | None \<Rightarrow> Inl (Exn ValueError (''invalid literal for int() with base 10: '' @ s)))"
| "py_int v = Inl (Exn TypeError ''int() argument must be a string, a bytes-like object or a real number'')"

section \<open>Handlers as programs: exceptions and calls to the outside\<close>

text \<open>
  A handler runs against the database and the payment processor. Every call it makes is
  appended to the log (the \<open>world\<close>), and what a call answers may depend on all calls made
  before it. A program returns a value or raises, and leaves a longer log.
\<close>

datatype ext_call =
    DbCall string params
  | StripeCall string params

type_synonym world = "ext_call list"
type_synonym 'a prog = "world \<Rightarrow> (exn + 'a) \<times> world"

definition return_p :: "'a \<Rightarrow> 'a prog" where
  "return_p x = (\<lambda>w. (Inr x, w))"

definition lift_p :: "exn + 'a \<Rightarrow> 'a prog" where
  "lift_p r = (\<lambda>w. (r, w))"

definition bind_p :: "'a prog \<Rightarrow> ('a \<Rightarrow> 'b prog) \<Rightarrow> 'b prog" where
  "bind_p m f = (\<lambda>w. case m w of (Inl e, w') \<Rightarrow> (Inl e, w') | (Inr x, w') \<Rightarrow> f x w')"

text \<open>\<open>try: m except Exception as e: h e\<close>\<close>

definition catch_p :: "'a prog \<Rightarrow> (exn \<Rightarrow> 'a prog) \<Rightarrow> 'a prog" where
  "catch_p m h = (\<lambda>w. case m w of (Inl e, w') \<Rightarrow> h e w' | (Inr x, w') \<Rightarrow> (Inr x, w'))"

definition bind_e :: "exn + 'a \<Rightarrow> ('a \<Rightarrow> exn + 'b) \<Rightarrow> exn + 'b" where
  "bind_e r f = (case r of Inl e \<Rightarrow> Inl e | Inr x \<Rightarrow> f x)"

text \<open>
  What lies outside the repository: the database behind \<open>Database.call_procedure\<close>
  (\<open>db w name ps\<close> is what the gateway returns or raises for the call, after the calls
  \<open>w\<close>), the Stripe API, werkzeug's password hashing, the signing and checking of JSON web
  tokens, the random token generator, the clock, and the texts Python prints for values and
  tracebacks. \<open>round_float r\<close> is the double nearest to \<open>r\<close>, or nothing when \<open>r\<close>
  is beyond the range of doubles; \<open>float_of_str\<close> reads a float literal; \<open>urlparse\<close>
  gives the scheme and the network location of a URL.
\<close>

datatype jwt_error = ExpiredSignature | InvalidToken

datatype token = Token (tok_refresh: bool) (tok_identity: pyval) (tok_claims: params)

record env =
  db :: "world \<Rightarrow> string \<Rightarrow> params \<Rightarrow> exn + row list"
  stripe_api :: "world \<Rightarrow> string \<Rightarrow> params \<Rightarrow> exn + pyval"
  check_password_hash :: "string \<Rightarrow> string \<Rightarrow> bool"
  generate_password_hash :: "string \<Rightarrow> string"
  jwt_encode :: "token \<Rightarrow> string"
  jwt_decode :: "string \<Rightarrow> jwt_error + token"
  secure_token :: "nat \<Rightarrow> string"
  expires_at_text :: "string"
  str_other :: "pyval \<Rightarrow> string"
  format_exc :: "exn \<Rightarrow> string"
  round_float :: "rat \<Rightarrow> rat option"
  float_of_str :: "string \<Rightarrow> rat option"
  urlparse :: "string \<Rightarrow> exn + string \<times> string"

definition Database_call_procedure :: "env \<Rightarrow> string \<Rightarrow> params \<Rightarrow> (row list) prog" where
  "Database_call_procedure env name ps = (\<lambda>w. (db env w name ps, w @ [DbCall name ps]))"


text \<open>A Flask response: the value given to \<open>jsonify\<close>, the status code, the headers added.\<close>

record response =
  body :: pyval
  status :: nat
  headers :: "(string \<times> string) list"

text \<open>
  A request: its method, what \<open>request.get_json()\<close> returns or raises, the bearer
  token of the Authorization header, and \<open>request.host_url\<close>.
\<close>

record request =
  req_method :: string
  req_json :: "exn + pyval"
  req_bearer :: "string option"
  req_host_url :: string

section \<open>Authentication routes (app/routes/auth/route.py)\<close>

text \<open>\<open>add_cors_headers(jsonify(d)), code\<close> and \<open>handle_preflight()\<close> of this module.\<close>

definition auth_response :: "params \<Rightarrow> nat \<Rightarrow> response" where
  "auth_response d code =
     \<lparr>body = PDict d, status = code, headers = [(''Access-Control-Allow-Origin'', ''*'')]\<rparr>"

definition auth_handle_preflight :: response where
  "auth_handle_preflight =
     \<lparr>body = PDict [(''message'', PStr ''OK'')], status = 200,
      headers = [(''Access-Control-Allow-Origin'', ''*''),
                 (''Access-Control-Allow-Headers'', ''Content-Type,Authorization''),
                 (''Access-Control-Allow-Methods'', ''GET,POST,OPTIONS'')]\<rparr>"

text \<open>
  \<open>validate_email\<close>: \<^verbatim>\<open>re.match(r'^[^\s@]+@[^\s@]+\.[^\s@]+$', email) is not None\<close>.
  The first group is the text before the first \<open>@\<close>; after it come two non-empty runs of
  characters other than blanks and \<open>@\<close>, separated by a dot; \<open>$\<close> also matches before one
  final newline.
\<close>

definition email_char :: "char \<Rightarrow> bool" where
  "email_char c \<longleftrightarrow> \<not> py_isspace c \<and> c \<noteq> CHR ''@''"

definition validate_email :: "string \<Rightarrow> bool" where
  "validate_email email =
     (let local_part = takeWhile email_char email;
          rest = dropWhile email_char email
      in local_part \<noteq> [] \<and>
         (case rest of
            [] \<Rightarrow> False
          | c # domain_part \<Rightarrow>
              c = CHR ''@'' \<and>
              (let d = (if domain_part \<noteq> [] \<and> last domain_part = CHR 0x0A
                        then butlast domain_part else domain_part)
               in list_all email_char d \<and> CHR ''.'' \<in> set (butlast (tl d)))))"

text \<open>
  \<open>validate_password\<close>. \<open>len(password)\<close> raises for a value without a length, and
  \<open>re.search\<close> raises for a list or a dict that got past the length test.
\<close>

fun validate_password :: "pyval \<Rightarrow> exn + bool \<times> string" where
  "validate_password (PStr password) =
     (if length password < 8 then Inr (False, ''Password must be at least 8 characters long'')
      else if \<not> list_ex ascii_letter password
        then Inr (False, ''Password must contain at least one letter'')
      else if \<not> list_ex py_isdigit password
        then Inr (False, ''Password must contain at least one number'')
      else Inr (True, ''Password is valid''))"
| "validate_password (PList xs) =
     (if length xs < 8 then Inr (False, ''Password must be at least 8 characters long'')
      else Inl (Exn TypeError ''expected string or bytes-like object''))"
| "validate_password (PDict kvs) =
     (if length kvs < 8 then Inr (False, ''Password must be at least 8 characters long'')
      else Inl (Exn TypeError ''expected string or bytes-like object''))"
| "validate_password v = Inl (Exn TypeError ''object has no len()'')"

text \<open>\<open>generate_password_hash(password)\<close> and \<open>check_password_hash(pwhash, password)\<close>
  of werkzeug work on strings and raise on anything else.\<close>

fun generate_password_hash_v :: "env \<Rightarrow> pyval \<Rightarrow> exn + string" where
  "generate_password_hash_v env (PStr p) = Inr (generate_password_hash env p)"
| "generate_password_hash_v env v = Inl (Exn AttributeError ''object has no attribute encode'')"

fun check_password_hash_v :: "env \<Rightarrow> pyval \<Rightarrow> pyval \<Rightarrow> exn + bool" where
  "check_password_hash_v env (PStr h) (PStr p) = Inr (check_password_hash env h p)"
| "check_password_hash_v env h p = Inl (Exn AttributeError ''object has no attribute count'')"

subsection \<open>\<open>register\<close>\<close>

text \<open>From the call of \<open>create_user_account\<close> to the end of the \<open>try\<close> block.\<close>

definition register_create :: "env \<Rightarrow> string \<Rightarrow> string \<Rightarrow> pyval \<Rightarrow> pyval \<Rightarrow> response prog" where
  "register_create env full_name email password newsletter =
     bind_p (lift_p (generate_password_hash_v env password)) (\<lambda>password_hash.
     bind_p (Database_call_procedure env ''create_user_account''
               [(''p_full_name'', PStr full_name), (''p_email'', PStr email),
                (''p_password_hash'', PStr password_hash), (''p_newsletter_opt_in'', newsletter)])
       (\<lambda>result.
     if result = [] then
       return_p (auth_response [(''error'', PStr ''Registration failed - no response from database'')] 500)
     else
       bind_p (lift_p (row_get (hd result) 0)) (\<lambda>status.
       bind_p (lift_p (row_get (hd result) 1)) (\<lambda>message.
       if status \<noteq> PStr ''success'' then return_p (auth_response [(''error'', message)] 400)
       else return_p (auth_response
              [(''message'', PStr ''Account created successfully''),
               (''user'', PDict [(''email'', PStr email), (''full_name'', PStr full_name)])] 201)))))"

text \<open>The validation chain, on the extracted fields.\<close>

definition register_validate :: "env \<Rightarrow> string \<Rightarrow> string \<Rightarrow> pyval \<Rightarrow> pyval \<Rightarrow> response prog" where
  "register_validate env full_name email password newsletter =
     (if full_name = [] \<or> length full_name < 2 then
        return_p (auth_response
          [(''error'', PStr ''Full name is required and must be at least 2 characters'')] 400)
      else if email = [] \<or> \<not> validate_email email then
        return_p (auth_response [(''error'', PStr ''Valid email address is required'')] 400)
      else
        bind_p (lift_p (validate_password password)) (\<lambda>(password_valid, password_message).
        if \<not> password_valid then return_p (auth_response [(''error'', PStr password_message)] 400)
        else register_create env full_name email password newsletter))"

definition register_body :: "env \<Rightarrow> request \<Rightarrow> response prog" where
  "register_body env req =
     bind_p (lift_p (req_json req)) (\<lambda>data.
     if \<not> truthy data then return_p (auth_response [(''error'', PStr ''No data provided'')] 400)
     else
       bind_p (lift_p (bind_e (dict_get data ''fullName'' (PStr [])) str_strip)) (\<lambda>full_name.
       bind_p (lift_p (bind_e (dict_get data ''email'' (PStr [])) str_strip)) (\<lambda>email_stripped.
       bind_p (lift_p (dict_get data ''password'' (PStr []))) (\<lambda>password.
       bind_p (lift_p (dict_get data ''newsletter'' (PBool False))) (\<lambda>newsletter.
       register_validate env full_name (py_lower email_stripped) password newsletter)))))"

definition register :: "env \<Rightarrow> request \<Rightarrow> response prog" where
  "register env req =
     (if req_method req = ''OPTIONS'' then return_p auth_handle_preflight
      else catch_p (register_body env req)
             (\<lambda>e. return_p (auth_response
                     [(''error'', PStr ''Internal server error during registration'')] 500)))"

subsection \<open>\<open>login\<close>\<close>

text \<open>
  After the password and the active flag are accepted: the tokens, the last-login update
  and the 200 response.
\<close>

definition login_issue ::
  "env \<Rightarrow> string \<Rightarrow> pyval \<Rightarrow> pyval \<Rightarrow> pyval \<Rightarrow> response prog" where
  "login_issue env email user_id full_name email_verified =
     (let user_id_str = py_str (str_other env) user_id;
          additional_claims =
            [(''email'', PStr email), (''full_name'', full_name),
             (''email_verified'', PBool (truthy email_verified))];
          access_token = jwt_encode env (Token False (PStr user_id_str) additional_claims);
          refresh_token = jwt_encode env (Token True (PStr user_id_str) [])
      in bind_p (Database_call_procedure env ''update_user_last_login'' [(''p_user_id'', user_id)])
           (\<lambda>ignored.
         return_p (auth_response
           [(''message'', PStr ''Login successful''),
            (''access_token'', PStr access_token),
            (''refresh_token'', PStr refresh_token),
            (''user'', PDict [(''id'', user_id), (''email'', PStr email),
                             (''full_name'', full_name),
                             (''email_verified'', PBool (truthy email_verified))])] 200)))"

text \<open>From \<open>row = result[0]\<close> on, for a non-empty result.\<close>

definition login_row :: "env \<Rightarrow> string \<Rightarrow> pyval \<Rightarrow> row \<Rightarrow> response prog" where
  "login_row env email password r =
     bind_p (lift_p (row_get r 0)) (\<lambda>status.
     bind_p (lift_p (row_get r 1)) (\<lambda>message.
     if status \<noteq> PStr ''success'' then
       return_p (auth_response [(''error'', PStr ''Invalid email or password'')] 401)
     else
       bind_p (lift_p (row_get r 2)) (\<lambda>user_id.
       bind_p (lift_p (row_get r 3)) (\<lambda>stored_password_hash.
       bind_p (lift_p (row_get r 4)) (\<lambda>full_name.
       bind_p (lift_p (row_get r 5)) (\<lambda>email_verified.
       bind_p (lift_p (row_get r 6)) (\<lambda>is_active.
       bind_p (lift_p (check_password_hash_v env stored_password_hash password)) (\<lambda>password_ok.
       if \<not> password_ok then
         return_p (auth_response [(''error'', PStr ''Invalid email or password'')] 401)
       else if \<not> truthy is_active then
         return_p (auth_response
           [(''error'', PStr ''Account is deactivated. Please contact support.'')] 401)
       else login_issue env email user_id full_name email_verified))))))))"

definition login_body :: "env \<Rightarrow> request \<Rightarrow> response prog" where
  "login_body env req =
     bind_p (lift_p (req_json req)) (\<lambda>data.
     if \<not> truthy data then return_p (auth_response [(''error'', PStr ''No data provided'')] 400)
     else
       bind_p (lift_p (bind_e (dict_get data ''email'' (PStr [])) str_strip)) (\<lambda>email_stripped.
       bind_p (lift_p (dict_get data ''password'' (PStr []))) (\<lambda>password.
       bind_p (lift_p (dict_get data ''remember'' (PBool False))) (\<lambda>remember.
       if py_lower email_stripped = [] \<or> \<not> truthy password then
         return_p (auth_response [(''error'', PStr ''Email and password are required'')] 400)
       else
         bind_p (Database_call_procedure env ''verify_user_login''
                   [(''p_email'', PStr (py_lower email_stripped))]) (\<lambda>result.
         if result = [] then
           return_p (auth_response [(''error'', PStr ''Invalid email or password'')] 401)
         else login_row env (py_lower email_stripped) password (hd result))))))"

definition login :: "env \<Rightarrow> request \<Rightarrow> response prog" where
  "login env req =
     (if req_method req = ''OPTIONS'' then return_p auth_handle_preflight
      else catch_p (login_body env req)
             (\<lambda>e. return_p (auth_response
                     [(''error'', PStr ''Internal server error during login'')] 500)))"

subsection \<open>\<open>@jwt_required()\<close> and the token callbacks of app.py\<close>

text \<open>
  The decorator lets an OPTIONS request through unchecked; otherwise it answers through
  the loaders registered in \<open>create_app\<close> when the token is missing, expired, invalid or of
  the wrong type, and runs the view with the decoded token when it is good.
\<close>

definition jwt_required ::
  "env \<Rightarrow> bool \<Rightarrow> request \<Rightarrow> (token option \<Rightarrow> response prog) \<Rightarrow> response prog" where
  "jwt_required env refresh req view =
     (if req_method req = ''OPTIONS'' then view None
      else case req_bearer req of
        None \<Rightarrow> return_p \<lparr>body = PDict [(''error'', PStr ''Authorization token is required'')],
                          status = 401, headers = []\<rparr>
      | Some encoded \<Rightarrow>
          (case jwt_decode env encoded of
             Inl ExpiredSignature \<Rightarrow>
               return_p \<lparr>body = PDict [(''error'', PStr ''Token has expired'')],
                         status = 401, headers = []\<rparr>
           | Inl InvalidToken \<Rightarrow>
               return_p \<lparr>body = PDict [(''error'', PStr ''Invalid token'')],
                         status = 401, headers = []\<rparr>
           | Inr t \<Rightarrow>
               if tok_refresh t \<noteq> refresh then
                 return_p \<lparr>body = PDict [(''error'', PStr ''Invalid token'')],
                           status = 401, headers = []\<rparr>
               else view (Some t)))"

text \<open>\<open>get_jwt_identity()\<close>: the subject of the verified token, \<open>None\<close> without one.\<close>

definition get_jwt_identity :: "token option \<Rightarrow> pyval" where
  "get_jwt_identity t = (case t of None \<Rightarrow> PNone | Some tok \<Rightarrow> tok_identity tok)"

subsection \<open>\<open>verify_token\<close>\<close>

definition verify_token_user :: "env \<Rightarrow> int \<Rightarrow> response prog" where
  "verify_token_user env current_user_id =
     bind_p (Database_call_procedure env ''get_user_by_id'' [(''p_user_id'', PInt current_user_id)])
       (\<lambda>result.
     if result = [] then return_p (auth_response [(''error'', PStr ''User not found'')] 404)
     else
       bind_p (lift_p (row_get (hd result) 0)) (\<lambda>status.
       if status \<noteq> PStr ''success'' then
         return_p (auth_response [(''error'', PStr ''User not found'')] 404)
       else
         bind_p (lift_p (row_get (hd result) 2)) (\<lambda>email.
         bind_p (lift_p (row_get (hd result) 3)) (\<lambda>full_name.
         bind_p (lift_p (row_get (hd result) 4)) (\<lambda>email_verified.
         return_p (auth_response
           [(''valid'', PBool True),
            (''user'', PDict [(''id'', PInt current_user_id), (''email'', email),
                             (''full_name'', full_name),
                             (''email_verified'', PBool (truthy email_verified)),
                             (''name'', full_name)])] 200))))))"

definition verify_token_body :: "env \<Rightarrow> token option \<Rightarrow> response prog" where
  "verify_token_body env t =
     (let current_user_id_str = get_jwt_identity t
      in if current_user_id_str = PNone then
           return_p (auth_response [(''error'', PStr ''Invalid token identity'')] 401)
         else
           (case py_int current_user_id_str of
              Inl e \<Rightarrow>
                if exn_class e = ValueError \<or> exn_class e = TypeError then
                  return_p (auth_response [(''error'', PStr ''Invalid user ID format'')] 401)
                else lift_p (Inl e)
            | Inr current_user_id \<Rightarrow> verify_token_user env current_user_id))"

definition verify_token_view :: "env \<Rightarrow> request \<Rightarrow> token option \<Rightarrow> response prog" where
  "verify_token_view env req t =
     (if req_method req = ''OPTIONS'' then return_p auth_handle_preflight
      else catch_p (verify_token_body env t)
             (\<lambda>e. return_p (auth_response [(''error'', PStr ''Token verification failed'')] 500)))"

definition verify_token :: "env \<Rightarrow> request \<Rightarrow> response prog" where
  "verify_token env req = jwt_required env False req (verify_token_view env req)"

section \<open>Password reset routes (app/routes/password/route.py)\<close>

text \<open>
  The module has its own copies of \<open>add_cors_headers\<close>, \<open>validate_email\<close> and
  \<open>validate_password\<close>, identical to those of the authentication module.
\<close>

definition password_response :: "params \<Rightarrow> nat \<Rightarrow> response" where
  "password_response d code =
     \<lparr>body = PDict d, status = code, headers = [(''Access-Control-Allow-Origin'', ''*'')]\<rparr>"

definition password_handle_preflight :: response where
  "password_handle_preflight =
     \<lparr>body = PDict [(''message'', PStr ''OK'')], status = 200,
      headers = [(''Access-Control-Allow-Origin'', ''*''),
                 (''Access-Control-Allow-Headers'', ''Content-Type,Authorization''),
                 (''Access-Control-Allow-Methods'', ''GET,POST,OPTIONS'')]\<rparr>"

text \<open>The answer given in several places of \<open>forgot_password\<close>.\<close>

definition reset_link_sent :: "string \<Rightarrow> response" where
  "reset_link_sent email =
     password_response
       [(''message'',
         PStr ''If an account with that email exists, we have sent a password reset link.''),
        (''email'', PStr email)] 200"

text \<open>
  \<open>send_password_reset_email\<close> only prints; it returns \<open>True\<close>, and \<open>forgot_password\<close>
  answers the same whatever it returns.

  From \<open>user_id = result[0][2]\<close> on: the user exists. The token is
  \<open>generate_secure_token(64)\<close> and the expiry the clock's now plus 24 hours, as text.
\<close>

definition forgot_password_user :: "env \<Rightarrow> string \<Rightarrow> row \<Rightarrow> response prog" where
  "forgot_password_user env email r =
     bind_p (lift_p (row_get r 2)) (\<lambda>user_id.
     bind_p (lift_p (row_get r 3)) (\<lambda>full_name.
     bind_p (lift_p (row_get r 4)) (\<lambda>is_active.
     if \<not> truthy is_active then return_p (reset_link_sent email)
     else
       bind_p (Database_call_procedure env ''create_password_reset_token''
                 [(''p_user_id'', user_id), (''p_token'', PStr (secure_token env 64)),
                  (''p_expires_at'', PStr (expires_at_text env))]) (\<lambda>token_result.
       if token_result = [] then
         return_p (password_response [(''error'', PStr ''Failed to generate reset token'')] 500)
       else
         bind_p (lift_p (row_get (hd token_result) 0)) (\<lambda>token_status.
         if token_status \<noteq> PStr ''success'' then
           return_p (password_response [(''error'', PStr ''Failed to generate reset token'')] 500)
         else return_p (reset_link_sent email))))))"

definition forgot_password_body :: "env \<Rightarrow> request \<Rightarrow> response prog" where
  "forgot_password_body env req =
     bind_p (lift_p (req_json req)) (\<lambda>data.
     if \<not> truthy data then
       return_p (password_response [(''error'', PStr ''No data provided'')] 400)
     else
       bind_p (lift_p (bind_e (dict_get data ''email'' (PStr [])) str_strip)) (\<lambda>email_stripped.
       if py_lower email_stripped = [] \<or> \<not> validate_email (py_lower email_stripped) then
         return_p (password_response [(''error'', PStr ''Valid email address is required'')] 400)
       else
         bind_p (Database_call_procedure env ''get_user_by_email''
                   [(''p_email'', PStr (py_lower email_stripped))]) (\<lambda>result.
         if result = [] then return_p (reset_link_sent (py_lower email_stripped))
         else
           bind_p (lift_p (row_get (hd result) 0)) (\<lambda>user_status.
           if user_status \<noteq> PStr ''success'' then
             return_p (reset_link_sent (py_lower email_stripped))
           else forgot_password_user env (py_lower email_stripped) (hd result)))))"

definition forgot_password :: "env \<Rightarrow> request \<Rightarrow> response prog" where
  "forgot_password env req =
     (if req_method req = ''OPTIONS'' then return_p password_handle_preflight
      else catch_p (forgot_password_body env req)
             (\<lambda>e. return_p (password_response [(''error'', PStr ''Internal server error'')] 500)))"

section \<open>Dashboard routes (app/routes/dashboard/route.py)\<close>

definition dashboard_response :: "params \<Rightarrow> nat \<Rightarrow> response" where
  "dashboard_response d code =
     \<lparr>body = PDict d, status = code,
      headers = [(''Access-Control-Allow-Origin'', ''*''),
                 (''Access-Control-Allow-Methods'', ''GET,POST,PUT,DELETE,OPTIONS''),
                 (''Access-Control-Allow-Headers'', ''Content-Type,Authorization'')]\<rparr>"

definition dashboard_handle_preflight :: response where
  "dashboard_handle_preflight =
     \<lparr>body = PDict [(''message'', PStr ''OK'')], status = 200,
      headers = [(''Access-Control-Allow-Origin'', ''*''),
                 (''Access-Control-Allow-Headers'', ''Content-Type,Authorization''),
                 (''Access-Control-Allow-Methods'', ''GET,POST,PUT,DELETE,OPTIONS'')]\<rparr>"

subsection \<open>Conversions used by the row decoder\<close>

text \<open>
  \<open>float(v)\<close>. A \<open>Decimal\<close> or a literal beyond the range of doubles would give an
  infinity, which \<open>pyval\<close> does not have; a DECIMAL column cannot hold such a value, and
  the model raises there as it does for an \<open>int\<close>.
\<close>

fun py_float :: "env \<Rightarrow> pyval \<Rightarrow> exn + pyval" where
  "py_float env (PFloat r) = Inr (PFloat r)"
| "py_float env (PInt i) =
     (case round_float env (of_int i) of
        Some r \<Rightarrow> Inr (PFloat r)
      | None \<Rightarrow> Inl (Exn OverflowError ''int too large to convert to float''))"
| "py_float env (PBool b) = Inr (PFloat (if b then 1 else 0))"
| "py_float env (PDecimal r) =
     (case round_float env r of
        Some r' \<Rightarrow> Inr (PFloat r')
      | None \<Rightarrow> Inl (Exn OverflowError ''value too large to convert to float''))"
| "py_float env (PStr s) =
     (case float_of_str env s of
        Some r \<Rightarrow> Inr (PFloat r)
      | None \<Rightarrow> Inl (Exn ValueError (''could not convert string to float: '' @ s)))"
| "py_float env v = Inl (Exn TypeError ''float() argument must be a string or a real number'')"

text \<open>\<open>float(v) if v else None\<close>\<close>

definition float_or_none :: "env \<Rightarrow> pyval \<Rightarrow> exn + pyval" where
  "float_or_none env v = (if truthy v then py_float env v else Inr PNone)"

text \<open>\<open>v.isoformat()\<close>: only a \<open>datetime\<close> has the method.\<close>

fun isoformat :: "pyval \<Rightarrow> exn + pyval" where
  "isoformat (PDateTime s) = Inr (PStr s)"
| "isoformat v = Inl (Exn AttributeError ''object has no attribute isoformat'')"

text \<open>\<open>v.isoformat() if v else None\<close>\<close>

definition iso_or_none :: "pyval \<Rightarrow> exn + pyval" where
  "iso_or_none v = (if truthy v then isoformat v else Inr PNone)"

text \<open>\<open>v if v else d\<close>\<close>

definition value_or :: "pyval \<Rightarrow> pyval \<Rightarrow> exn + pyval" where
  "value_or d v = Inr (if truthy v then v else d)"

text \<open>\<open>bool(v) if v is not None else False\<close>\<close>

definition bool_or_false :: "pyval \<Rightarrow> exn + pyval" where
  "bool_or_false v = Inr (PBool (v \<noteq> PNone \<and> truthy v))"

text \<open>
  A dict display \<open>{k1: e1, k2: e2, ...}\<close> evaluates its entries from left to right; the
  first entry that raises ends the evaluation.
\<close>

fun dict_display :: "(string \<times> (exn + pyval)) list \<Rightarrow> exn + params" where
  "dict_display [] = Inr []"
| "dict_display (entry # entries) =
     bind_e (snd entry) (\<lambda>v.
     bind_e (dict_display entries) (\<lambda>kvs. Inr ((fst entry, v) # kvs)))"

subsection \<open>The product row decoder of \<open>get_user_products\<close>\<close>

text \<open>The enhanced format with webhooks: the first dict display of the loop body.\<close>

definition decode_enhanced :: "env \<Rightarrow> row \<Rightarrow> exn + params" where
  "decode_enhanced env r =
     dict_display
       [(''id'', row_get r 2),
        (''url'', row_get r 3),
        (''title'', row_get r 4),
        (''store'', row_get r 5),
        (''current_price'', bind_e (row_get r 6) (float_or_none env)),
        (''min_price_alert'', bind_e (row_get r 7) (float_or_none env)),
        (''max_price_alert'', bind_e (row_get r 8) (float_or_none env)),
        (''discord_webhook_url'', bind_e (row_get r 9) (value_or (PStr []))),
        (''alerts_sent'', bind_e (row_get r 10) (value_or (PInt 0))),
        (''status'', row_get r 11),
        (''last_checked_at'', bind_e (row_get r 12) iso_or_none),
        (''last_price_change'', bind_e (row_get r 13) iso_or_none),
        (''sms_notifications_enabled'', bind_e (row_get r 14) bool_or_false),
        (''created_at'', bind_e (row_get r 15) iso_or_none),
        (''updated_at'', bind_e (row_get r 16) iso_or_none),
        (''price_history_count'', if length r > 17 then row_get r 17 else Inr (PInt 0))]"

text \<open>"Enhanced format but different structure": the second dict display.\<close>

definition decode_alternate :: "env \<Rightarrow> row \<Rightarrow> exn + params" where
  "decode_alternate env r =
     dict_display
       [(''id'', row_get r 0),
        (''url'', row_get r 1),
        (''title'', row_get r 2),
        (''store'', row_get r 3),
        (''current_price'', bind_e (row_get r 4) (float_or_none env)),
        (''min_price_alert'', bind_e (row_get r 5) (float_or_none env)),
        (''max_price_alert'', bind_e (row_get r 6) (float_or_none env)),
        (''discord_webhook_url'',
           if length r > 7 then bind_e (row_get r 7) (value_or (PStr [])) else Inr (PStr [])),
        (''status'', if length r > 8 then row_get r 8 else Inr (PStr ''checking'')),
        (''last_checked_at'', if length r > 9 then bind_e (row_get r 9) iso_or_none else Inr PNone),
        (''last_price_change'',
           if length r > 10 then bind_e (row_get r 10) iso_or_none else Inr PNone),
        (''alerts_sent'',
           if length r > 11 then bind_e (row_get r 11) (value_or (PInt 0)) else Inr (PInt 0)),
        (''created_at'', if length r > 12 then bind_e (row_get r 12) iso_or_none else Inr PNone),
        (''updated_at'', if length r > 13 then bind_e (row_get r 13) iso_or_none else Inr PNone),
        (''price_history_count'', if length r > 14 then row_get r 14 else Inr (PInt 0))]"

text \<open>The old procedure format: the third dict display.\<close>

definition decode_old :: "env \<Rightarrow> row \<Rightarrow> exn + params" where
  "decode_old env r =
     dict_display
       [(''id'', row_get r 0),
        (''url'', row_get r 1),
        (''title'', row_get r 2),
        (''store'', row_get r 3),
        (''current_price'', bind_e (row_get r 4) (float_or_none env)),
        (''min_price_alert'', bind_e (row_get r 5) (float_or_none env)),
        (''max_price_alert'', bind_e (row_get r 6) (float_or_none env)),
        (''discord_webhook_url'', Inr (PStr [])),
        (''status'', row_get r 7),
        (''last_checked_at'', bind_e (row_get r 8) iso_or_none),
        (''last_price_change'', bind_e (row_get r 9) iso_or_none),
        (''alerts_sent'', bind_e (row_get r 10) (value_or (PInt 0))),
        (''created_at'', bind_e (row_get r 11) iso_or_none),
        (''updated_at'', bind_e (row_get r 12) iso_or_none),
        (''price_history_count'', if length r > 13 then row_get r 13 else Inr (PInt 0))]"

text \<open>
  \<open>try: product = {...}; products.append(product)
  except (IndexError, TypeError, ValueError): continue\<close>. The result is the product to
  append, nothing when the row is skipped, or the exception that leaves the loop.
\<close>

definition try_parse :: "exn + params \<Rightarrow> exn + pyval option" where
  "try_parse parsed =
     (case parsed of
        Inr product \<Rightarrow> Inr (Some (PDict product))
      | Inl e \<Rightarrow>
          if exn_class e = IndexError \<or> exn_class e = TypeError \<or> exn_class e = ValueError
          then Inr None else Inl e)"

text \<open>One iteration of \<open>for i, row in enumerate(result)\<close>.\<close>

definition decode_product_row :: "env \<Rightarrow> row \<Rightarrow> exn + pyval option" where
  "decode_product_row env r =
     (if length r \<ge> 2 \<and> row_get r 0 = Inr (PStr ''success'')
         \<and> row_get r 1 = Inr (PStr ''Products retrieved successfully'') \<and> length r = 2
      then Inr None
      else if length r > 15 then
        try_parse (if row_get r 0 = Inr (PStr ''success'') \<and> length r > 15
                   then decode_enhanced env r else decode_alternate env r)
      else if length r > 10 then try_parse (decode_old env r)
      else Inr None)"

text \<open>The whole loop: the list \<open>products\<close>, or the exception that left the loop.\<close>

fun parse_products :: "env \<Rightarrow> row list \<Rightarrow> exn + pyval list" where
  "parse_products env [] = Inr []"
| "parse_products env (r # rs) =
     bind_e (decode_product_row env r) (\<lambda>parsed.
     bind_e (parse_products env rs) (\<lambda>products.
       Inr (case parsed of None \<Rightarrow> products | Some product \<Rightarrow> product # products)))"

subsection \<open>\<open>get_user_products\<close>\<close>

text \<open>
  The enhanced procedure, and on any exception the old one; \<open>result = None\<close> when that
  fails too.
\<close>

definition fetch_user_products :: "env \<Rightarrow> int \<Rightarrow> (row list option) prog" where
  "fetch_user_products env user_id =
     catch_p
       (bind_p (Database_call_procedure env ''get_user_products_with_data''
                  [(''p_user_id'', PInt user_id)]) (\<lambda>result. return_p (Some result)))
       (\<lambda>e. catch_p
          (bind_p (Database_call_procedure env ''get_user_products''
                     [(''p_user_id'', PInt user_id)]) (\<lambda>result. return_p (Some result)))
          (\<lambda>e2. return_p None))"

definition no_products :: response where
  "no_products =
     dashboard_response [(''products'', PList []), (''debug'', PStr ''No results found'')] 200"

text \<open>From \<open>first_row = result[0]\<close> to the 200 response, for a non-empty result; no
  call is made in this part.\<close>

definition products_of_result :: "env \<Rightarrow> int \<Rightarrow> row list \<Rightarrow> exn + response" where
  "products_of_result env user_id result =
     (if length (hd result) > 0 \<and> row_get (hd result) 0 = Inr (PStr ''error'') then
        bind_e (row_get (hd result) 1) (\<lambda>message.
        Inr (dashboard_response
          [(''error'', message), (''products'', PList []),
           (''debug'', PStr ''Error from procedure'')] 400))
      else
        bind_e (parse_products env result) (\<lambda>products.
        Inr (dashboard_response
          [(''products'', PList products),
           (''total_count'', PInt (int (length products))),
           (''debug'', PDict [(''user_id'', PInt user_id),
                             (''result_length'', PInt (int (length result))),
                             (''products_parsed'', PInt (int (length products)))])] 200)))"

definition get_user_products_body :: "env \<Rightarrow> token option \<Rightarrow> response prog" where
  "get_user_products_body env t =
     bind_p (lift_p (py_int (get_jwt_identity t))) (\<lambda>user_id.
     bind_p (fetch_user_products env user_id) (\<lambda>fetched.
     case fetched of
       None \<Rightarrow> return_p no_products
     | Some result \<Rightarrow>
         if result = [] then return_p no_products
         else lift_p (products_of_result env user_id result)))"

text \<open>The \<open>except Exception as e\<close> of \<open>get_user_products\<close>.\<close>

definition products_error :: "env \<Rightarrow> exn \<Rightarrow> response" where
  "products_error env e =
     dashboard_response
       [(''error'', PStr ''Failed to load products''),
        (''debug'', PStr (exn_str e)),
        (''traceback'', PStr (format_exc env e))] 500"

definition get_user_products_view :: "env \<Rightarrow> request \<Rightarrow> token option \<Rightarrow> response prog" where
  "get_user_products_view env req t =
     (if req_method req = ''OPTIONS'' then return_p dashboard_handle_preflight
      else catch_p (get_user_products_body env t) (\<lambda>e. return_p (products_error env e)))"

definition get_user_products :: "env \<Rightarrow> request \<Rightarrow> response prog" where
  "get_user_products env req = jwt_required env False req (get_user_products_view env req)"

subsection \<open>\<open>add_product\<close>\<close>

text \<open>\<open>validate_url\<close>: \<open>all([result.scheme, result.netloc])\<close>, \<open>False\<close> when
  \<open>urlparse\<close> raises.\<close>

definition validate_url :: "env \<Rightarrow> string \<Rightarrow> bool" where
  "validate_url env url =
     (case urlparse env url of
        Inl e \<Rightarrow> False
      | Inr parsed \<Rightarrow> fst parsed \<noteq> [] \<and> snd parsed \<noteq> [])"

text \<open>\<open>sub in s\<close> and \<open>s.replace('www.', '')\<close>.\<close>

fun contains :: "string \<Rightarrow> string \<Rightarrow> bool" where
  "contains [] sub = (sub = [])"
| "contains (c # cs) sub = (startswith (c # cs) sub \<or> contains cs sub)"

function remove_www :: "string \<Rightarrow> string" where
  "remove_www [] = []"
| "remove_www (c # cs) =
     (if startswith (c # cs) ''www.'' then remove_www (drop 3 cs) else c # remove_www cs)"
  by pat_completeness auto
termination
  by (relation "measure length") auto

text \<open>\<open>extract_product_info(url)\<close>: the store and the title.\<close>

definition extract_product_info :: "env \<Rightarrow> string \<Rightarrow> exn + string \<times> string" where
  "extract_product_info env url =
     bind_e (urlparse env (py_lower url)) (\<lambda>parsed_url.
       let domain = remove_www (snd parsed_url)
       in if contains domain ''amazon.'' then Inr (''Amazon'', ''Amazon Product'')
          else if contains domain ''ebay.'' then Inr (''eBay'', ''eBay Item'')
          else if contains domain ''bestbuy.'' then Inr (''Best Buy'', ''Best Buy Product'')
          else if contains domain ''target.'' then Inr (''Target'', ''Target Product'')
          else if contains domain ''walmart.'' then Inr (''Walmart'', ''Walmart Product'')
          else Inr (''Other'', ''Product from '' @ domain))"

text \<open>
  The enhanced procedure with the webhook URL and the SMS flag, and on any exception the
  old procedure, which takes neither.
\<close>

definition store_product ::
  "env \<Rightarrow> int \<Rightarrow> string \<Rightarrow> string \<Rightarrow> string \<Rightarrow> pyval \<Rightarrow> (row list) prog" where
  "store_product env user_id url title discord_webhook_url sms_notifications_enabled =
     catch_p
       (Database_call_procedure env ''add_user_product_with_webhook''
          [(''p_user_id'', PInt user_id),
           (''p_product_url'', PStr url),
           (''p_product_title'', PStr title),
           (''p_discord_webhook_url'',
              if discord_webhook_url \<noteq> [] then PStr discord_webhook_url else PNone),
           (''p_sms_notifications_enabled'', sms_notifications_enabled)])
       (\<lambda>e. Database_call_procedure env ''add_user_product''
          [(''p_user_id'', PInt user_id),
           (''p_product_url'', PStr url),
           (''p_product_title'', PStr title)])"

text \<open>From \<open>if not result or len(result) == 0\<close> to the 201 response; no call is made
  in this part.\<close>

definition added_product_response ::
  "int \<Rightarrow> string \<Rightarrow> string \<Rightarrow> row list \<Rightarrow> exn + response" where
  "added_product_response user_id url title result =
     (if result = [] then
        Inr (dashboard_response [(''error'', PStr ''Failed to add product'')] 500)
      else
        bind_e (row_get (hd result) 0) (\<lambda>row_status.
        bind_e (row_get (hd result) 1) (\<lambda>message.
        if row_status \<noteq> PStr ''success'' then
          Inr (dashboard_response [(''error'', message)] 400)
        else
          bind_e (if length (hd result) > 2 then row_get (hd result) 2 else Inr PNone)
            (\<lambda>product_id.
          Inr (dashboard_response
            [(''message'', message),
             (''product_id'', product_id),
             (''debug'', PDict [(''user_id'', PInt user_id), (''url'', PStr url),
                               (''title'', PStr title)])] 201)))))"

text \<open>The checks on the extracted fields, the default title, the store and the answer.\<close>

definition add_product_checked ::
  "env \<Rightarrow> int \<Rightarrow> string \<Rightarrow> string \<Rightarrow> string \<Rightarrow> pyval \<Rightarrow> response prog" where
  "add_product_checked env user_id url title discord_webhook_url sms_notifications_enabled =
     (if url = [] then
        return_p (dashboard_response [(''error'', PStr ''Product URL is required'')] 400)
      else if \<not> validate_url env url then
        return_p (dashboard_response [(''error'', PStr ''Invalid URL format'')] 400)
      else if discord_webhook_url \<noteq> []
            \<and> \<not> (startswith discord_webhook_url ''https://discord.com/api/webhooks/''
                   \<or> startswith discord_webhook_url ''https://discordapp.com/api/webhooks/'')
      then
        return_p (dashboard_response [(''error'', PStr ''Invalid Discord webhook URL format'')] 400)
      else
        bind_p (lift_p (if title = [] then bind_e (extract_product_info env url) (\<lambda>info. Inr (snd info))
                        else Inr title)) (\<lambda>title'.
        bind_p (store_product env user_id url title' discord_webhook_url sms_notifications_enabled)
          (\<lambda>result.
        lift_p (added_product_response user_id url title' result))))"

definition add_product_body :: "env \<Rightarrow> request \<Rightarrow> token option \<Rightarrow> response prog" where
  "add_product_body env req t =
     bind_p (lift_p (py_int (get_jwt_identity t))) (\<lambda>user_id.
     bind_p (lift_p (req_json req)) (\<lambda>data.
     if \<not> truthy data then
       return_p (dashboard_response [(''error'', PStr ''No data provided'')] 400)
     else
       bind_p (lift_p (bind_e (dict_get data ''url'' (PStr [])) str_strip)) (\<lambda>url.
       bind_p (lift_p (bind_e (dict_get data ''title'' (PStr [])) str_strip)) (\<lambda>title.
       bind_p (lift_p (bind_e (dict_get data ''discord_webhook_url'' (PStr [])) str_strip))
         (\<lambda>discord_webhook_url.
       bind_p (lift_p (dict_get data ''sms_notifications_enabled'' (PBool False)))
         (\<lambda>sms_notifications_enabled.
       add_product_checked env user_id url title discord_webhook_url
         sms_notifications_enabled))))))"

definition add_product_view :: "env \<Rightarrow> request \<Rightarrow> token option \<Rightarrow> response prog" where
  "add_product_view env req t =
     (if req_method req = ''OPTIONS'' then return_p dashboard_handle_preflight
      else catch_p (add_product_body env req t)
             (\<lambda>e. return_p (dashboard_response [(''error'', PStr ''Failed to add product'')] 500)))"

definition add_product :: "env \<Rightarrow> request \<Rightarrow> response prog" where
  "add_product env req = jwt_required env False req (add_product_view env req)"

section \<open>Checkout (app/routes/premium/route.py)\<close>



subsection \<open>Stripe objects and the arithmetic of the price\<close>









subsection \<open>\<open>create_checkout_session\<close>\<close>
















section \<open>A concrete environment, for running the handlers on examples\<close>

text \<open>
  The database answers every procedure through the given function; passwords are
  "hashed" by prefixing them; a token is "signed" by looking it up in a table of issued
  tokens; Stripe creates whatever is asked and numbers its objects by the length of the
  call log; floats are exact; only https URLs are understood.
\<close>

definition example_env ::
  "(string \<Rightarrow> params \<Rightarrow> exn + row list) \<Rightarrow> (string \<times> token) list \<Rightarrow> env" where
  "example_env answers issued =
     \<lparr>db = (\<lambda>w name ps. answers name ps),
      stripe_api = (\<lambda>w name ps. Inr (PDict [(''id'', PStr (name @ ''_'' @ nat_str (length w))),
                                              (''url'', PStr ''https://checkout.example/pay'')])),
      check_password_hash = (\<lambda>h p. h = ''plain:'' @ p),
      generate_password_hash = (\<lambda>p. ''plain:'' @ p),
      jwt_encode = (\<lambda>t. case find (\<lambda>kv. snd kv = t) issued of
                            None \<Rightarrow> ''unsigned'' | Some kv \<Rightarrow> fst kv),
      jwt_decode = (\<lambda>s. case map_of issued s of None \<Rightarrow> Inl InvalidToken | Some t \<Rightarrow> Inr t),
      secure_token = (\<lambda>n. replicate n (CHR ''x'')),
      expires_at_text = ''2024-05-02 12:00:00'',
      str_other = (\<lambda>v. ''?''),
      format_exc = (\<lambda>e. ''Traceback (most recent call last): '' @ exn_str e),
      round_float = Some,
      float_of_str = (\<lambda>s. None),
      urlparse = (\<lambda>u. if startswith u ''https://''
                        then Inr (''https'', takeWhile (\<lambda>c. c \<noteq> CHR ''/'') (drop 8 u))
                        else Inr ([], []))\<rparr>"

definition post_json :: "params \<Rightarrow> request" where
  "post_json d = \<lparr>req_method = ''POST'', req_json = Inr (PDict d), req_bearer = None,
      req_host_url = ''https://stockwatch.example/''\<rparr>"

text \<open>One stored user, Ann Lee with id 42, as the procedures of the auth routes report her.\<close>

definition example_user_db :: "string \<Rightarrow> params \<Rightarrow> exn + row list" where
  "example_user_db name ps =
     (if name = ''verify_user_login'' then
        Inr [[PStr ''success'', PStr ''User found'', PInt 42, PStr ''plain:secret123'',
              PStr ''Ann Lee'', PInt 1, PInt 1]]
      else if name = ''get_user_by_id'' then
        Inr [[PStr ''success'', PStr ''User found'', PStr ''ann@example.com'',
              PStr ''Ann Lee'', PInt 1]]
      else Inr [[PStr ''success'', PStr ''OK'']])"

definition example_access_token :: token where
  "example_access_token =
     Token False (PStr ''42'')
       [(''email'', PStr ''ann@example.com''), (''full_name'', PStr ''Ann Lee''),
        (''email_verified'', PBool True)]"

definition get_with_bearer :: "string \<Rightarrow> request" where
  "get_with_bearer encoded =
     \<lparr>req_method = ''GET'', req_json = Inl (Exn BadRequest ''no JSON body''),
      req_bearer = Some encoded,
      req_host_url = ''https://stockwatch.example/''\<rparr>"

text \<open>
  Databases for the password reset: no account for the email; an active account
  whose reset token is stored; an active account whose reset token cannot be stored.
\<close>

definition no_account_db :: "string \<Rightarrow> params \<Rightarrow> exn + row list" where
  "no_account_db name ps = Inr [[PStr ''error'', PStr ''User not found'']]"

definition active_account_db :: "bool \<Rightarrow> string \<Rightarrow> params \<Rightarrow> exn + row list" where
  "active_account_db token_stored name ps =
     (if name = ''get_user_by_email'' then
        Inr [[PStr ''success'', PStr ''User found'', PInt 42, PStr ''Ann Lee'', PInt 1]]
      else if name = ''create_password_reset_token'' \<and> \<not> token_stored then
        Inr [[PStr ''error'', PStr ''Could not create token'']]
      else Inr [[PStr ''success'', PStr ''OK'']])"

text \<open>An active account, with the database failing on every other procedure.\<close>

definition token_store_down_db :: "string \<Rightarrow> params \<Rightarrow> exn + row list" where
  "token_store_down_db name ps =
     (if name = ''get_user_by_email'' then
        Inr [[PStr ''success'', PStr ''User found'', PInt 42, PStr ''Ann Lee'', PInt 1]]
      else Inl (Exn SQLAlchemyError ''Lost connection to MySQL server''))"

text \<open>
  A database in which the record of user 42 changes between the login and the next
  request: \<open>verify_user_login\<close>, called at login, reports Ann Lee with a verified
  address; \<open>get_user_by_id\<close>, called afterwards, reports the address as it is stored,
  another name and a cleared flag.
\<close>

definition stored_user_db :: "string \<Rightarrow> params \<Rightarrow> exn + row list" where
  "stored_user_db name ps =
     (if name = ''verify_user_login'' then
        Inr [[PStr ''success'', PStr ''User found'', PInt 42, PStr ''plain:secret123'',
              PStr ''Ann Lee'', PInt 1, PInt 1]]
      else if name = ''get_user_by_id'' then
        Inr [[PStr ''success'', PStr ''User found'', PStr ''Ann@Example.com'',
              PStr ''Ann B. Lee'', PInt 0]]
      else Inr [[PStr ''success'', PStr ''OK'']])"

text \<open>
  Product rows: a 16-column row that starts with \<open>success\<close>, an 18-column one, a
  14-column row in the old layout, and a 16-column row that starts with the product id.
\<close>

definition success_row_16 :: row where
  "success_row_16 =
     [PStr ''success'', PStr ''Products retrieved successfully'', PInt 7,
      PStr ''https://shop.example/p/7'', PStr ''Kettle'', PStr ''Other'',
      PDecimal (1999 / 100), PNone, PNone, PStr [], PInt 0, PStr ''in_stock'',
      PDateTime ''2024-05-01T12:00:00'', PNone, PInt 0, PDateTime ''2024-04-01T09:00:00'']"

definition success_row_18 :: row where
  "success_row_18 =
     success_row_16 @ [PDateTime ''2024-04-02T10:00:00'', PInt 3]"

definition old_row_14 :: row where
  "old_row_14 =
     [PInt 7, PStr ''https://shop.example/p/7'', PStr ''Kettle'', PStr ''Other'',
      PDecimal (1999 / 100), PNone, PNone, PStr ''in_stock'',
      PDateTime ''2024-05-01T12:00:00'', PNone, PInt 0,
      PDateTime ''2024-04-01T09:00:00'', PDateTime ''2024-04-02T10:00:00'', PInt 3]"

definition plain_row_16 :: row where
  "plain_row_16 =
     [PInt 7, PStr ''https://shop.example/p/7'', PStr ''Kettle'', PStr ''Other'',
      PDecimal (1999 / 100), PNone, PNone, PStr [], PStr ''in_stock'',
      PDateTime ''2024-05-01T12:00:00'', PNone, PInt 0,
      PDateTime ''2024-04-01T09:00:00'', PDateTime ''2024-04-02T10:00:00'', PInt 3, PNone]"

text \<open>
  Databases for the dashboard: one without the enhanced procedures (calling them raises),
  one with them, and one whose enhanced procedure reports \<open>last_checked_at\<close> as text.
\<close>

definition enhanced_missing_db :: "string \<Rightarrow> params \<Rightarrow> exn + row list" where
  "enhanced_missing_db name ps =
     (if name = ''add_user_product_with_webhook'' \<or> name = ''get_user_products_with_data'' then
        Inl (Exn SQLAlchemyError (''PROCEDURE stockwatch.'' @ name @ '' does not exist''))
      else if name = ''add_user_product'' then
        Inr [[PStr ''success'', PStr ''Product added'', PInt 9]]
      else if name = ''get_user_products'' then Inr [old_row_14]
      else Inr [])"

definition enhanced_present_db :: "string \<Rightarrow> params \<Rightarrow> exn + row list" where
  "enhanced_present_db name ps =
     (if name = ''add_user_product_with_webhook'' then
        Inr [[PStr ''success'', PStr ''Product added'', PInt 9]]
      else if name = ''get_user_products_with_data'' then Inr [old_row_14]
      else Inr [])"

definition text_timestamp_db :: "string \<Rightarrow> params \<Rightarrow> exn + row list" where
  "text_timestamp_db name ps =
     (if name = ''get_user_products_with_data'' then
        Inr [success_row_18 [12 := PStr ''2024-05-01 12:00:00'']]
      else Inr [])"

definition post_json_with_bearer :: "string \<Rightarrow> params \<Rightarrow> request" where
  "post_json_with_bearer encoded d =
     \<lparr>req_method = ''POST'', req_json = Inr (PDict d), req_bearer = Some encoded,
      req_host_url = ''https://stockwatch.example/''\<rparr>"

section \<open>Properties of the procedure gateway\<close>







section \<open>Properties of the authentication routes\<close>

lemmas prog_defs =
  return_p_def lift_p_def bind_p_def catch_p_def bind_e_def Database_call_procedure_def

lemma validate_email_nonempty: "validate_email email \<Longrightarrow> email \<noteq> []"
  by (auto simp add: validate_email_def)



lemma login_inactive:
  assumes "req_method req \<noteq> ''OPTIONS''"
    and "req_json req = Inr (PDict d)" and "d \<noteq> []"
    and "dict_get (PDict d) ''email'' (PStr []) = Inr (PStr e)"
    and "dict_get (PDict d) ''password'' (PStr []) = Inr (PStr p)"
    and "py_lower (py_strip e) \<noteq> []" and "p \<noteq> []"
    and "db env w ''verify_user_login'' [(''p_email'', PStr (py_lower (py_strip e)))] = Inr (r # rest)"
    and "7 \<le> length r" and "r ! 0 = PStr ''success''" and "r ! 3 = PStr h"
    and "check_password_hash env h p" and "\<not> truthy (r ! 6)"
  shows "login env req w =
           (Inr (auth_response
                  [(''error'', PStr ''Account is deactivated. Please contact support.'')] 401),
            w @ [DbCall ''verify_user_login'' [(''p_email'', PStr (py_lower (py_strip e)))]])"
  using assms
  by (auto simp add: login_def login_body_def login_row_def prog_defs row_get_def)



text \<open>
  Claim C9. A login request whose email resolves to a user (success row), whose password
  matches the stored hash, and whose active flag is false is answered 401 with the body
  \<open>{"error": "Account is deactivated. Please contact support."}\<close>, which is not the
  body of the invalid-credentials answer.
\<close>

theorem login_inactive_account_distinguishable:
  assumes "req_method req \<noteq> ''OPTIONS''"
    and "req_json req = Inr (PDict d)" and "d \<noteq> []"
    and "dict_get (PDict d) ''email'' (PStr []) = Inr (PStr e)"
    and "dict_get (PDict d) ''password'' (PStr []) = Inr (PStr p)"
    and "py_lower (py_strip e) \<noteq> []" and "p \<noteq> []"
    and "db env w ''verify_user_login'' [(''p_email'', PStr (py_lower (py_strip e)))] = Inr (r # rest)"
    and "7 \<le> length r" and "r ! 0 = PStr ''success''" and "r ! 3 = PStr h"
    and "check_password_hash env h p" and "\<not> truthy (r ! 6)"
  shows "fst (login env req w) =
           Inr \<lparr>body = PDict [(''error'', PStr ''Account is deactivated. Please contact support.'')],
                status = 401, headers = [(''Access-Control-Allow-Origin'', ''*'')]\<rparr>
         \<and> (\<forall>resp. fst (login env req w) = Inr resp \<longrightarrow>
               body resp \<noteq> PDict [(''error'', PStr ''Invalid email or password'')])"
  using login_inactive [OF assms] by (simp add: auth_response_def)

theorem login_inactive_account_distinguishable_witness:
  "fst (login (example_env (\<lambda>name ps. Inr [[PStr ''success'', PStr ''User found'', PInt 42,
                  PStr ''plain:secret123'', PStr ''Ann Lee'', PInt 1, PInt 0]]) [])
          (post_json [(''email'', PStr ''ann@example.com''), (''password'', PStr ''secret123'')]) [])
     = Inr \<lparr>body = PDict [(''error'', PStr ''Account is deactivated. Please contact support.'')],
            status = 401, headers = [(''Access-Control-Allow-Origin'', ''*'')]\<rparr>"
  using login_inactive_account_distinguishable
    [of "post_json [(''email'', PStr ''ann@example.com''), (''password'', PStr ''secret123'')]"
        "[(''email'', PStr ''ann@example.com''), (''password'', PStr ''secret123'')]"
        "''ann@example.com''" "''secret123''"
        "example_env (\<lambda>name ps. Inr [[PStr ''success'', PStr ''User found'', PInt 42,
                  PStr ''plain:secret123'', PStr ''Ann Lee'', PInt 1, PInt 0]]) []"
        "[]"
        "[PStr ''success'', PStr ''User found'', PInt 42,
                  PStr ''plain:secret123'', PStr ''Ann Lee'', PInt 1, PInt 0]"
        "[]" "''plain:secret123''"]
  by (simp add: example_env_def post_json_def py_lower_def py_strip_def py_isspace_def
      py_lower_char_def)

lemma register_weak_password:
  assumes "req_method req \<noteq> ''OPTIONS''"
    and "req_json req = Inr (PDict d)" and "d \<noteq> []"
    and "dict_get (PDict d) ''fullName'' (PStr []) = Inr (PStr n)"
    and "dict_get (PDict d) ''email'' (PStr []) = Inr (PStr e)"
    and "dict_get (PDict d) ''password'' (PStr []) = Inr (PStr p)"
    and "2 \<le> length (py_strip n)"
    and "validate_email (py_lower (py_strip e))"
    and "length p < 8 \<or> \<not> list_ex ascii_letter p \<or> \<not> list_ex py_isdigit p"
  shows "register env req w =
           (Inr (auth_response [(''error'', PStr
                   (if length p < 8 then ''Password must be at least 8 characters long''
                    else if \<not> list_ex ascii_letter p
                      then ''Password must contain at least one letter''
                    else ''Password must contain at least one number''))] 400), w)"
  using assms validate_email_nonempty [of "py_lower (py_strip e)"]
  by (auto simp add: register_def register_body_def register_validate_def prog_defs)

text \<open>
  Claim C4. A registration request (a JSON object) whose stripped full name has at least two
  characters and whose normalised email passes \<open>validate_email\<close>, and whose password text
  (empty when the field is absent) is shorter than 8 characters, or has no ASCII letter, or
  has no digit, is answered 400 with the message of the first failed password rule, and the
  log of outside calls is left as it was: \<open>create_user_account\<close> is not invoked, nor is
  any other procedure.
\<close>

theorem register_weak_password_rejected:
  assumes "req_method req \<noteq> ''OPTIONS''"
    and "req_json req = Inr (PDict d)" and "d \<noteq> []"
    and "dict_get (PDict d) ''fullName'' (PStr []) = Inr (PStr n)"
    and "dict_get (PDict d) ''email'' (PStr []) = Inr (PStr e)"
    and "dict_get (PDict d) ''password'' (PStr []) = Inr (PStr p)"
    and "2 \<le> length (py_strip n)"
    and "validate_email (py_lower (py_strip e))"
    and "length p < 8 \<or> \<not> list_ex ascii_letter p \<or> \<not> list_ex py_isdigit p"
  shows "fst (register env req w) =
           Inr \<lparr>body = PDict [(''error'', PStr
                   (if length p < 8 then ''Password must be at least 8 characters long''
                    else if \<not> list_ex ascii_letter p
                      then ''Password must contain at least one letter''
                    else ''Password must contain at least one number''))],
                status = 400, headers = [(''Access-Control-Allow-Origin'', ''*'')]\<rparr>
         \<and> snd (register env req w) = w
         \<and> (\<forall>ps. DbCall ''create_user_account'' ps \<in> set (snd (register env req w))
                \<longrightarrow> DbCall ''create_user_account'' ps \<in> set w)"
  using register_weak_password [OF assms] by (simp add: auth_response_def)

theorem register_weak_password_rejected_witness:
  "fst (register (example_env (\<lambda>name ps. Inr [[PStr ''success'', PStr ''Account created'']]) [])
          (post_json [(''fullName'', PStr ''Ann Lee''), (''email'', PStr ''Ann@Example.com''),
                      (''password'', PStr ''abcdefghij'')]) [])
     = Inr \<lparr>body = PDict [(''error'', PStr ''Password must contain at least one number'')],
            status = 400, headers = [(''Access-Control-Allow-Origin'', ''*'')]\<rparr>
   \<and> snd (register (example_env (\<lambda>name ps. Inr [[PStr ''success'', PStr ''Account created'']]) [])
          (post_json [(''fullName'', PStr ''Ann Lee''), (''email'', PStr ''Ann@Example.com''),
                      (''password'', PStr ''abcdefghij'')]) [])
     = []"
  using register_weak_password_rejected
    [of "post_json [(''fullName'', PStr ''Ann Lee''), (''email'', PStr ''Ann@Example.com''),
                      (''password'', PStr ''abcdefghij'')]"
        "[(''fullName'', PStr ''Ann Lee''), (''email'', PStr ''Ann@Example.com''),
                      (''password'', PStr ''abcdefghij'')]"
        "''Ann Lee''" "''Ann@Example.com''" "''abcdefghij''"
        "example_env (\<lambda>name ps. Inr [[PStr ''success'', PStr ''Account created'']]) []" "[]"]
  by (simp add: example_env_def post_json_def py_lower_def py_strip_def py_isspace_def
      py_lower_char_def validate_email_def email_char_def ascii_letter_def py_isdigit_def)

lemma login_success:
  assumes "req_method req \<noteq> ''OPTIONS''"
    and "req_json req = Inr (PDict d)" and "d \<noteq> []"
    and "dict_get (PDict d) ''email'' (PStr []) = Inr (PStr e)"
    and "dict_get (PDict d) ''password'' (PStr []) = Inr (PStr p)"
    and "py_lower (py_strip e) \<noteq> []" and "p \<noteq> []"
    and "db env w ''verify_user_login'' [(''p_email'', PStr (py_lower (py_strip e)))] = Inr (r # rest)"
    and "7 \<le> length r" and "r ! 0 = PStr ''success''" and "r ! 3 = PStr h"
    and "check_password_hash env h p" and "truthy (r ! 6)"
    and "db env (w @ [DbCall ''verify_user_login'' [(''p_email'', PStr (py_lower (py_strip e)))]])
           ''update_user_last_login'' [(''p_user_id'', r ! 2)] = Inr updated"
  shows "login env req w =
           (Inr (auth_response
             [(''message'', PStr ''Login successful''),
              (''access_token'', PStr (jwt_encode env (Token False (PStr (py_str (str_other env) (r ! 2)))
                  [(''email'', PStr (py_lower (py_strip e))), (''full_name'', r ! 4),
                   (''email_verified'', PBool (truthy (r ! 5)))]))),
              (''refresh_token'', PStr (jwt_encode env (Token True (PStr (py_str (str_other env) (r ! 2))) []))),
              (''user'', PDict [(''id'', r ! 2), (''email'', PStr (py_lower (py_strip e))),
                               (''full_name'', r ! 4),
                               (''email_verified'', PBool (truthy (r ! 5)))])] 200),
            w @ [DbCall ''verify_user_login'' [(''p_email'', PStr (py_lower (py_strip e)))],
                 DbCall ''update_user_last_login'' [(''p_user_id'', r ! 2)]])"
  using assms
  by (auto simp add: login_def login_body_def login_row_def login_issue_def prog_defs row_get_def Let_def)

lemma verify_token_success:
  assumes "req_method req \<noteq> ''OPTIONS''"
    and "req_bearer req = Some encoded"
    and "jwt_decode env encoded = Inr (Token False ident claims)"
    and "py_int ident = Inr uid" and "ident \<noteq> PNone"
    and "db env w ''get_user_by_id'' [(''p_user_id'', PInt uid)] = Inr (u # rest)"
    and "5 \<le> length u" and "u ! 0 = PStr ''success''"
  shows "verify_token env req w =
           (Inr (auth_response
              [(''valid'', PBool True),
               (''user'', PDict [(''id'', PInt uid), (''email'', u ! 2), (''full_name'', u ! 3),
                                (''email_verified'', PBool (truthy (u ! 4))), (''name'', u ! 3)])] 200),
            w @ [DbCall ''get_user_by_id'' [(''p_user_id'', PInt uid)]])"
  using assms
  by (auto simp add: verify_token_def jwt_required_def verify_token_view_def verify_token_body_def
      verify_token_user_def get_jwt_identity_def prog_defs row_get_def Let_def)

lemma py_int_str_42: "py_int (PStr (py_str other (PInt 42))) = Inr 42"
  by (simp add: int_str_def int_of_str_def int_strip_def int_isspace_def py_strip_def py_isspace_def py_isdigit_def)


text \<open>
  Claim C7, as stated, fails: verify-token does not read the claims of the token. It takes
  the identity, converts it with \<open>int\<close> and answers with what \<open>get_user_by_id\<close> reports
  at that moment. Here the login embeds \<open>ann@example.com\<close>, \<open>Ann Lee\<close> and \<open>True\<close> in
  the token \<open>signed-42\<close>, and verify-token, called with that token right after, answers
  200 with id 42 and the database's \<open>Ann@Example.com\<close>, \<open>Ann B. Lee\<close> and \<open>False\<close>.
\<close>

theorem verify_token_ignores_claims_counterexample:
  "fst (login (example_env stored_user_db [(''signed-42'', example_access_token)])
          (post_json [(''email'', PStr ''Ann@Example.com''), (''password'', PStr ''secret123'')])
          [])
     = Inr \<lparr>body = PDict
              [(''message'', PStr ''Login successful''),
               (''access_token'', PStr ''signed-42''),
               (''refresh_token'', PStr ''unsigned''),
               (''user'', PDict [(''id'', PInt 42), (''email'', PStr ''ann@example.com''),
                                (''full_name'', PStr ''Ann Lee''),
                                (''email_verified'', PBool True)])],
            status = 200, headers = [(''Access-Control-Allow-Origin'', ''*'')]\<rparr>
   \<and> jwt_decode (example_env stored_user_db [(''signed-42'', example_access_token)]) ''signed-42''
     = Inr (Token False (PStr ''42'')
              [(''email'', PStr ''ann@example.com''), (''full_name'', PStr ''Ann Lee''),
               (''email_verified'', PBool True)])
   \<and> fst (verify_token (example_env stored_user_db [(''signed-42'', example_access_token)])
          (get_with_bearer ''signed-42'')
          (snd (login (example_env stored_user_db [(''signed-42'', example_access_token)])
                  (post_json [(''email'', PStr ''Ann@Example.com''), (''password'', PStr ''secret123'')])
                  [])))
     = Inr \<lparr>body = PDict
              [(''valid'', PBool True),
               (''user'', PDict [(''id'', PInt 42), (''email'', PStr ''Ann@Example.com''),
                                (''full_name'', PStr ''Ann B. Lee''),
                                (''email_verified'', PBool False),
                                (''name'', PStr ''Ann B. Lee'')])],
            status = 200, headers = [(''Access-Control-Allow-Origin'', ''*'')]\<rparr>"
  by (simp add: login_def login_body_def login_row_def login_issue_def
      verify_token_def jwt_required_def verify_token_view_def verify_token_body_def
      verify_token_user_def get_jwt_identity_def prog_defs row_get_def Let_def
      auth_response_def example_env_def stored_user_db_def example_access_token_def
      post_json_def get_with_bearer_def py_lower_def py_strip_def py_isspace_def
      py_lower_char_def int_str_def int_of_str_def int_strip_def int_isspace_def
      py_isdigit_def)

text \<open>
  Claim C7, amended. A login for the user with identifier 42 (the success row of
  \<open>verify_user_login\<close> carries the integer 42, the password matches, the account is
  active) answers 200 and its access token is the signed token \<open>t\<close> with identity string
  \<open>"42"\<close> and the claims email (the normalised email of the request), full_name and
  email_verified (columns 4 and 5 of the row). When that token is presented to
  verify-token right after, the token library accepts what it signed and
  \<open>get_user_by_id\<close> answers a success row \<open>u\<close>, the answer is 200 with a user object
  whose id is the integer 42 and whose email, full_name and email_verified are columns 2,
  3 and 4 of \<open>u\<close>: the values the database reports then, whatever the claims of the token
  are. So the user object carries the claims embedded at issuance exactly when
  \<open>get_user_by_id\<close> reports the email login normalised and the name and flag
  \<open>verify_user_login\<close> reported.
\<close>

theorem access_token_round_trip_42:
  assumes "req_method req \<noteq> ''OPTIONS''"
    and "req_json req = Inr (PDict d)" and "d \<noteq> []"
    and "dict_get (PDict d) ''email'' (PStr []) = Inr (PStr e)"
    and "dict_get (PDict d) ''password'' (PStr []) = Inr (PStr p)"
    and "py_lower (py_strip e) \<noteq> []" and "p \<noteq> []"
    and "db env w ''verify_user_login'' [(''p_email'', PStr (py_lower (py_strip e)))] = Inr (r # rest)"
    and "7 \<le> length r" and "r ! 0 = PStr ''success''" and "r ! 3 = PStr h"
    and "check_password_hash env h p" and "truthy (r ! 6)"
    and "db env (w @ [DbCall ''verify_user_login'' [(''p_email'', PStr (py_lower (py_strip e)))]])
           ''update_user_last_login'' [(''p_user_id'', r ! 2)] = Inr updated"
    and user_42: "r ! 2 = PInt 42"
    and issued: "t = Token False (PStr ''42'')
                   [(''email'', PStr (py_lower (py_strip e))), (''full_name'', r ! 4),
                    (''email_verified'', PBool (truthy (r ! 5)))]"
    and accepted: "jwt_decode env (jwt_encode env t) = Inr t"
    and "req_method req_v \<noteq> ''OPTIONS''"
    and "req_bearer req_v = Some (jwt_encode env t)"
    and "db env (snd (login env req w)) ''get_user_by_id'' [(''p_user_id'', PInt 42)] = Inr (u # rest_v)"
    and "5 \<le> length u" and "u ! 0 = PStr ''success''"
  shows "(\<exists>resp. fst (login env req w) = Inr resp \<and> status resp = 200
            \<and> dict_get (body resp) ''access_token'' PNone = Inr (PStr (jwt_encode env t)))
         \<and> tok_identity t = PStr ''42''
         \<and> fst (verify_token env req_v (snd (login env req w))) =
             Inr \<lparr>body = PDict
                    [(''valid'', PBool True),
                     (''user'', PDict [(''id'', PInt 42),
                                      (''email'', u ! 2),
                                      (''full_name'', u ! 3),
                                      (''email_verified'', PBool (truthy (u ! 4))),
                                      (''name'', u ! 3)])],
                   status = 200, headers = [(''Access-Control-Allow-Origin'', ''*'')]\<rparr>
         \<and> ((fst (verify_token env req_v (snd (login env req w))) =
               Inr \<lparr>body = PDict
                    [(''valid'', PBool True),
                     (''user'', PDict [(''id'', PInt 42),
                                      (''email'', the (map_of (tok_claims t) ''email'')),
                                      (''full_name'', the (map_of (tok_claims t) ''full_name'')),
                                      (''email_verified'',
                                         the (map_of (tok_claims t) ''email_verified'')),
                                      (''name'', the (map_of (tok_claims t) ''full_name''))])],
                   status = 200, headers = [(''Access-Control-Allow-Origin'', ''*'')]\<rparr>)
              \<longleftrightarrow>
              (u ! 2 = PStr (py_lower (py_strip e)) \<and> u ! 3 = r ! 4
                 \<and> truthy (u ! 4) = truthy (r ! 5)))"
proof -
  have str42: "py_str (str_other env) (r ! 2) = ''42''"
    using user_42 by (simp add: int_str_def)
  have login_run: "login env req w =
           (Inr (auth_response
             [(''message'', PStr ''Login successful''),
              (''access_token'', PStr (jwt_encode env t)),
              (''refresh_token'', PStr (jwt_encode env (Token True (PStr ''42'') []))),
              (''user'', PDict [(''id'', r ! 2), (''email'', PStr (py_lower (py_strip e))),
                               (''full_name'', r ! 4),
                               (''email_verified'', PBool (truthy (r ! 5)))])] 200),
            w @ [DbCall ''verify_user_login'' [(''p_email'', PStr (py_lower (py_strip e)))],
                 DbCall ''update_user_last_login'' [(''p_user_id'', r ! 2)]])"
    using login_success [OF assms(1-14)] str42 issued by simp
  have ident: "py_int (PStr ''42'') = Inr 42"
    by (simp add: int_of_str_def int_strip_def int_isspace_def py_isdigit_def)
  have verify_run: "fst (verify_token env req_v (snd (login env req w))) =
           Inr (auth_response
              [(''valid'', PBool True),
               (''user'', PDict [(''id'', PInt 42), (''email'', u ! 2), (''full_name'', u ! 3),
                                (''email_verified'', PBool (truthy (u ! 4))), (''name'', u ! 3)])] 200)"
    using verify_token_success [of req_v "jwt_encode env t" env "PStr ''42''" "tok_claims t" 42
        "snd (login env req w)" u rest_v] assms(18-22) accepted issued ident
    by simp
  have issued_login: "\<exists>resp. fst (login env req w) = Inr resp \<and> status resp = 200
            \<and> dict_get (body resp) ''access_token'' PNone = Inr (PStr (jwt_encode env t))"
    using login_run by (simp add: auth_response_def)
  have identity: "tok_identity t = PStr ''42''"
    using issued by simp
  have claims: "the (map_of (tok_claims t) ''email'') = PStr (py_lower (py_strip e))"
    "the (map_of (tok_claims t) ''full_name'') = r ! 4"
    "the (map_of (tok_claims t) ''email_verified'') = PBool (truthy (r ! 5))"
    using issued by simp_all
  show ?thesis
    unfolding verify_run claims
    using issued_login identity
    by (auto simp add: auth_response_def)
qed

theorem access_token_round_trip_42_witness:
  "fst (verify_token (example_env example_user_db [(''signed-42'', example_access_token)])
          (get_with_bearer ''signed-42'')
          (snd (login (example_env example_user_db [(''signed-42'', example_access_token)])
                  (post_json [(''email'', PStr ''Ann@Example.com''), (''password'', PStr ''secret123'')])
                  [])))
     = Inr \<lparr>body = PDict
              [(''valid'', PBool True),
               (''user'', PDict [(''id'', PInt 42), (''email'', PStr ''ann@example.com''),
                                (''full_name'', PStr ''Ann Lee''),
                                (''email_verified'', PBool True),
                                (''name'', PStr ''Ann Lee'')])],
            status = 200, headers = [(''Access-Control-Allow-Origin'', ''*'')]\<rparr>
   \<and> fst (verify_token (example_env stored_user_db [(''signed-42'', example_access_token)])
          (get_with_bearer ''signed-42'')
          (snd (login (example_env stored_user_db [(''signed-42'', example_access_token)])
                  (post_json [(''email'', PStr ''Ann@Example.com''), (''password'', PStr ''secret123'')])
                  [])))
     = Inr \<lparr>body = PDict
              [(''valid'', PBool True),
               (''user'', PDict [(''id'', PInt 42), (''email'', PStr ''Ann@Example.com''),
                                (''full_name'', PStr ''Ann B. Lee''),
                                (''email_verified'', PBool False),
                                (''name'', PStr ''Ann B. Lee'')])],
            status = 200, headers = [(''Access-Control-Allow-Origin'', ''*'')]\<rparr>"
  using access_token_round_trip_42
    [of "post_json [(''email'', PStr ''Ann@Example.com''), (''password'', PStr ''secret123'')]"
        "[(''email'', PStr ''Ann@Example.com''), (''password'', PStr ''secret123'')]"
        "''Ann@Example.com''" "''secret123''"
        "example_env example_user_db [(''signed-42'', example_access_token)]"
        "[]"
        "[PStr ''success'', PStr ''User found'', PInt 42, PStr ''plain:secret123'',
              PStr ''Ann Lee'', PInt 1, PInt 1]"
        "[]" "''plain:secret123''" "[[PStr ''success'', PStr ''OK'']]"
        example_access_token
        "get_with_bearer ''signed-42''"
        "[PStr ''success'', PStr ''User found'', PStr ''ann@example.com'', PStr ''Ann Lee'', PInt 1]"
        "[]"]
    access_token_round_trip_42
    [of "post_json [(''email'', PStr ''Ann@Example.com''), (''password'', PStr ''secret123'')]"
        "[(''email'', PStr ''Ann@Example.com''), (''password'', PStr ''secret123'')]"
        "''Ann@Example.com''" "''secret123''"
        "example_env stored_user_db [(''signed-42'', example_access_token)]"
        "[]"
        "[PStr ''success'', PStr ''User found'', PInt 42, PStr ''plain:secret123'',
              PStr ''Ann Lee'', PInt 1, PInt 1]"
        "[]" "''plain:secret123''" "[[PStr ''success'', PStr ''OK'']]"
        example_access_token
        "get_with_bearer ''signed-42''"
        "[PStr ''success'', PStr ''User found'', PStr ''Ann@Example.com'', PStr ''Ann B. Lee'',
          PInt 0]"
        "[]"]
  by (simp add: example_env_def example_user_db_def stored_user_db_def example_access_token_def
      post_json_def get_with_bearer_def py_lower_def py_strip_def py_isspace_def
      py_lower_char_def)

section \<open>Properties of the password reset route\<close>

lemma forgot_password_no_account:
  assumes "req_method req \<noteq> ''OPTIONS''"
    and "req_json req = Inr (PDict d)" and "d \<noteq> []"
    and "dict_get (PDict d) ''email'' (PStr []) = Inr (PStr e)"
    and "validate_email (py_lower (py_strip e))"
    and "db env w ''get_user_by_email'' [(''p_email'', PStr (py_lower (py_strip e)))] = Inr rows"
    and "rows = [] \<or> (1 \<le> length (hd rows) \<and> hd rows ! 0 \<noteq> PStr ''success'')"
  shows "fst (forgot_password env req w) = Inr (reset_link_sent (py_lower (py_strip e)))"
  using assms validate_email_nonempty [of "py_lower (py_strip e)"]
  by (auto simp add: forgot_password_def forgot_password_body_def prog_defs row_get_def)

lemma forgot_password_inactive:
  assumes "req_method req \<noteq> ''OPTIONS''"
    and "req_json req = Inr (PDict d)" and "d \<noteq> []"
    and "dict_get (PDict d) ''email'' (PStr []) = Inr (PStr e)"
    and "validate_email (py_lower (py_strip e))"
    and "db env w ''get_user_by_email'' [(''p_email'', PStr (py_lower (py_strip e)))] = Inr (r # rest)"
    and "5 \<le> length r" and "r ! 0 = PStr ''success''"
    and "\<not> truthy (r ! 4)"
  shows "fst (forgot_password env req w) = Inr (reset_link_sent (py_lower (py_strip e)))"
  using assms validate_email_nonempty [of "py_lower (py_strip e)"]
  by (auto simp add: forgot_password_def forgot_password_body_def forgot_password_user_def
      prog_defs row_get_def)

lemma forgot_password_active:
  assumes "req_method req \<noteq> ''OPTIONS''"
    and "req_json req = Inr (PDict d)" and "d \<noteq> []"
    and "dict_get (PDict d) ''email'' (PStr []) = Inr (PStr e)"
    and "validate_email (py_lower (py_strip e))"
    and "db env w ''get_user_by_email'' [(''p_email'', PStr (py_lower (py_strip e)))] = Inr (r # rest)"
    and "5 \<le> length r" and "r ! 0 = PStr ''success''"
    and "truthy (r ! 4)"
    and "db env (w @ [DbCall ''get_user_by_email'' [(''p_email'', PStr (py_lower (py_strip e)))]])
           ''create_password_reset_token''
           [(''p_user_id'', r ! 2), (''p_token'', PStr (secure_token env 64)),
            (''p_expires_at'', PStr (expires_at_text env))] = Inr (t # trest)"
    and "1 \<le> length t"
  shows "fst (forgot_password env req w) =
           Inr (if t ! 0 = PStr ''success'' then reset_link_sent (py_lower (py_strip e))
                else password_response [(''error'', PStr ''Failed to generate reset token'')] 500)"
  using assms validate_email_nonempty [of "py_lower (py_strip e)"]
  by (auto simp add: forgot_password_def forgot_password_body_def forgot_password_user_def
      prog_defs row_get_def)

text \<open>
  Where the answer is uniform. Take two forgot-password requests, each a JSON object whose
  normalised email passes \<open>validate_email\<close>. In the first run \<open>get_user_by_email\<close>
  answers no row or a first row whose status is not \<open>success\<close> (no account). In the second
  run it answers a success row (status, message, user id, full name, active flag) and either
  the account is inactive, or it is active and \<open>create_password_reset_token\<close> reports
  success. Then both runs answer 200 with the same generic message, next to the normalised
  email of the request itself.
\<close>

lemma forgot_password_uniform_when_token_stored:
  assumes "req_method req1 \<noteq> ''OPTIONS''"
    and "req_json req1 = Inr (PDict d1)" and "d1 \<noteq> []"
    and "dict_get (PDict d1) ''email'' (PStr []) = Inr (PStr e1)"
    and "validate_email (py_lower (py_strip e1))"
    and "db env1 w1 ''get_user_by_email'' [(''p_email'', PStr (py_lower (py_strip e1)))] = Inr rows1"
    and "rows1 = [] \<or> (1 \<le> length (hd rows1) \<and> hd rows1 ! 0 \<noteq> PStr ''success'')"
    and "req_method req2 \<noteq> ''OPTIONS''"
    and "req_json req2 = Inr (PDict d2)" and "d2 \<noteq> []"
    and "dict_get (PDict d2) ''email'' (PStr []) = Inr (PStr e2)"
    and "validate_email (py_lower (py_strip e2))"
    and "db env2 w2 ''get_user_by_email'' [(''p_email'', PStr (py_lower (py_strip e2)))]
           = Inr (r # rest)"
    and "5 \<le> length r" and "r ! 0 = PStr ''success''"
    and stored: "truthy (r ! 4) \<longrightarrow>
           db env2 (w2 @ [DbCall ''get_user_by_email'' [(''p_email'', PStr (py_lower (py_strip e2)))]])
             ''create_password_reset_token''
             [(''p_user_id'', r ! 2), (''p_token'', PStr (secure_token env2 64)),
              (''p_expires_at'', PStr (expires_at_text env2))] = Inr (t # trest)
           \<and> 1 \<le> length t \<and> t ! 0 = PStr ''success''"
  shows "fst (forgot_password env1 req1 w1) =
           Inr \<lparr>body = PDict
                  [(''message'',
                    PStr ''If an account with that email exists, we have sent a password reset link.''),
                   (''email'', PStr (py_lower (py_strip e1)))],
                status = 200, headers = [(''Access-Control-Allow-Origin'', ''*'')]\<rparr>
         \<and> fst (forgot_password env2 req2 w2) =
           Inr \<lparr>body = PDict
                  [(''message'',
                    PStr ''If an account with that email exists, we have sent a password reset link.''),
                   (''email'', PStr (py_lower (py_strip e2)))],
                status = 200, headers = [(''Access-Control-Allow-Origin'', ''*'')]\<rparr>"
proof -
  have first: "fst (forgot_password env1 req1 w1) = Inr (reset_link_sent (py_lower (py_strip e1)))"
    by (rule forgot_password_no_account [OF assms(1-7)])
  have second: "fst (forgot_password env2 req2 w2) = Inr (reset_link_sent (py_lower (py_strip e2)))"
  proof (cases "truthy (r ! 4)")
    case False
    then show ?thesis
      by (rule forgot_password_inactive [OF assms(8-15)])
  next
    case True
    with stored have tok:
      "db env2 (w2 @ [DbCall ''get_user_by_email'' [(''p_email'', PStr (py_lower (py_strip e2)))]])
             ''create_password_reset_token''
             [(''p_user_id'', r ! 2), (''p_token'', PStr (secure_token env2 64)),
              (''p_expires_at'', PStr (expires_at_text env2))] = Inr (t # trest)"
      and len: "1 \<le> length t" and ok: "t ! 0 = PStr ''success''"
      by simp_all
    show ?thesis
      using forgot_password_active [OF assms(8-15) True tok len] ok by simp
  qed
  from first second show ?thesis
    by (simp add: reset_link_sent_def password_response_def)
qed

lemma forgot_password_uniform_when_token_stored_example:
  "fst (forgot_password (example_env no_account_db [])
          (post_json [(''email'', PStr ''nobody@example.com'')]) [])
     = Inr \<lparr>body = PDict
              [(''message'',
                PStr ''If an account with that email exists, we have sent a password reset link.''),
               (''email'', PStr ''nobody@example.com'')],
            status = 200, headers = [(''Access-Control-Allow-Origin'', ''*'')]\<rparr>
   \<and> fst (forgot_password (example_env (active_account_db True) [])
          (post_json [(''email'', PStr ''Ann@Example.com'')]) [])
     = Inr \<lparr>body = PDict
              [(''message'',
                PStr ''If an account with that email exists, we have sent a password reset link.''),
               (''email'', PStr ''ann@example.com'')],
            status = 200, headers = [(''Access-Control-Allow-Origin'', ''*'')]\<rparr>"
  using forgot_password_uniform_when_token_stored
    [of "post_json [(''email'', PStr ''nobody@example.com'')]"
        "[(''email'', PStr ''nobody@example.com'')]" "''nobody@example.com''"
        "example_env no_account_db []" "[]" "[[PStr ''error'', PStr ''User not found'']]"
        "post_json [(''email'', PStr ''Ann@Example.com'')]"
        "[(''email'', PStr ''Ann@Example.com'')]" "''Ann@Example.com''"
        "example_env (active_account_db True) []" "[]"
        "[PStr ''success'', PStr ''User found'', PInt 42, PStr ''Ann Lee'', PInt 1]" "[]"
        "[PStr ''success'', PStr ''OK'']" "[]"]
  by (simp add: example_env_def no_account_db_def active_account_db_def post_json_def
      py_lower_def py_strip_def py_isspace_def py_lower_char_def
      validate_email_def email_char_def)

text \<open>
  Claim C6. The handler means to answer every well-formed request alike: its comments read
  "For security, always return success even if user doesn't exist", "Don't reveal that
  account is deactivated" and "Always return success for security (don't reveal if email
  failed)", and a reset email that could not be sent is swallowed. The step between them
  is not: when \<open>create_password_reset_token\<close> does not report success the answer is 500
  "Failed to generate reset token", and when it raises (or its first row is empty) the
  answer is 500 "Internal server error". The token is stored only for an existing active
  account, so at such a moment the status and the body tell that account from an unknown
  email, which is answered 200 with the generic message.
\<close>

theorem forgot_password_token_failure_reveals_account:
  "fst (forgot_password (example_env no_account_db [])
          (post_json [(''email'', PStr ''ann@example.com'')]) [])
     = Inr \<lparr>body = PDict
              [(''message'',
                PStr ''If an account with that email exists, we have sent a password reset link.''),
               (''email'', PStr ''ann@example.com'')],
            status = 200, headers = [(''Access-Control-Allow-Origin'', ''*'')]\<rparr>
   \<and> fst (forgot_password (example_env (active_account_db False) [])
          (post_json [(''email'', PStr ''ann@example.com'')]) [])
     = Inr \<lparr>body = PDict [(''error'', PStr ''Failed to generate reset token'')],
            status = 500, headers = [(''Access-Control-Allow-Origin'', ''*'')]\<rparr>
   \<and> fst (forgot_password (example_env token_store_down_db [])
          (post_json [(''email'', PStr ''ann@example.com'')]) [])
     = Inr \<lparr>body = PDict [(''error'', PStr ''Internal server error'')],
            status = 500, headers = [(''Access-Control-Allow-Origin'', ''*'')]\<rparr>"
  by (simp add: forgot_password_def forgot_password_body_def forgot_password_user_def
      prog_defs row_get_def example_env_def no_account_db_def active_account_db_def
      token_store_down_db_def post_json_def reset_link_sent_def password_response_def
      py_lower_def py_strip_def py_isspace_def py_lower_char_def
      validate_email_def email_char_def)

section \<open>Properties of the product row decoder\<close>

lemmas decode_defs = decode_product_row_def try_parse_def bind_e_def row_get_def
  value_or_def bool_or_false_def


lemma decode_success_row:
  assumes "17 \<le> length r" and "r ! 0 = PStr ''success''"
    and "float_or_none env (r ! 6) = Inr p6"
    and "float_or_none env (r ! 7) = Inr p7"
    and "float_or_none env (r ! 8) = Inr p8"
    and "iso_or_none (r ! 12) = Inr t12"
    and "iso_or_none (r ! 13) = Inr t13"
    and "iso_or_none (r ! 15) = Inr t15"
    and "iso_or_none (r ! 16) = Inr t16"
  shows "decode_product_row env r =
     Inr (Some (PDict
       [(''id'', r ! 2), (''url'', r ! 3), (''title'', r ! 4), (''store'', r ! 5),
        (''current_price'', p6), (''min_price_alert'', p7), (''max_price_alert'', p8),
        (''discord_webhook_url'', if truthy (r ! 9) then r ! 9 else PStr []),
        (''alerts_sent'', if truthy (r ! 10) then r ! 10 else PInt 0),
        (''status'', r ! 11),
        (''last_checked_at'', t12), (''last_price_change'', t13),
        (''sms_notifications_enabled'', PBool (r ! 14 \<noteq> PNone \<and> truthy (r ! 14))),
        (''created_at'', t15), (''updated_at'', t16),
        (''price_history_count'', if length r > 17 then r ! 17 else PInt 0)]))"
  using assms
  by (auto simp add: decode_defs decode_enhanced_def)

lemma decode_old_row:
  assumes "length r = 14"
    and "float_or_none env (r ! 4) = Inr p4"
    and "float_or_none env (r ! 5) = Inr p5"
    and "float_or_none env (r ! 6) = Inr p6"
    and "iso_or_none (r ! 8) = Inr t8"
    and "iso_or_none (r ! 9) = Inr t9"
    and "iso_or_none (r ! 11) = Inr t11"
    and "iso_or_none (r ! 12) = Inr t12"
  shows "decode_product_row env r =
     Inr (Some (PDict
       [(''id'', r ! 0), (''url'', r ! 1), (''title'', r ! 2), (''store'', r ! 3),
        (''current_price'', p4), (''min_price_alert'', p5), (''max_price_alert'', p6),
        (''discord_webhook_url'', PStr []),
        (''status'', r ! 7),
        (''last_checked_at'', t8), (''last_price_change'', t9),
        (''alerts_sent'', if truthy (r ! 10) then r ! 10 else PInt 0),
        (''created_at'', t11), (''updated_at'', t12),
        (''price_history_count'', r ! 13)]))"
  using assms
  by (auto simp add: decode_defs decode_old_def)

lemma decode_alternate_row:
  assumes "15 < length r" and "r ! 0 \<noteq> PStr ''success''"
    and "float_or_none env (r ! 4) = Inr p4"
    and "float_or_none env (r ! 5) = Inr p5"
    and "float_or_none env (r ! 6) = Inr p6"
    and "iso_or_none (r ! 9) = Inr t9"
    and "iso_or_none (r ! 10) = Inr t10"
    and "iso_or_none (r ! 12) = Inr t12"
    and "iso_or_none (r ! 13) = Inr t13"
  shows "decode_product_row env r =
     Inr (Some (PDict
       [(''id'', r ! 0), (''url'', r ! 1), (''title'', r ! 2), (''store'', r ! 3),
        (''current_price'', p4), (''min_price_alert'', p5), (''max_price_alert'', p6),
        (''discord_webhook_url'', if truthy (r ! 7) then r ! 7 else PStr []),
        (''status'', r ! 8),
        (''last_checked_at'', t9), (''last_price_change'', t10),
        (''alerts_sent'', if truthy (r ! 11) then r ! 11 else PInt 0),
        (''created_at'', t12), (''updated_at'', t13),
        (''price_history_count'', r ! 14)]))"
  using assms
  by (auto simp add: decode_defs decode_alternate_def)


text \<open>
  Claim C1, as stated, fails twice. A row of length 16 that starts with \<open>success\<close> enters
  the enhanced branch, whose dict display reads \<open>row[16]\<close>: the IndexError is caught and
  the row is skipped, so no product is produced. A row of length 14 never reaches the
  alternate enhanced mapping, which sits under \<open>len(row) > 15\<close>: it is decoded by the old
  mapping, whose \<open>created_at\<close> is position 11, not position 12.
\<close>

theorem decode_product_row_counterexample:
  "length success_row_16 = 16 \<and> success_row_16 ! 0 = PStr ''success''
   \<and> decode_product_row (example_env no_account_db []) success_row_16 = Inr None
   \<and> length old_row_14 = 14 \<and> old_row_14 ! 0 \<noteq> PStr ''success''
   \<and> old_row_14 ! 11 = PDateTime ''2024-04-01T09:00:00''
   \<and> old_row_14 ! 12 = PDateTime ''2024-04-02T10:00:00''
   \<and> decode_product_row (example_env no_account_db []) old_row_14 =
       Inr (Some (PDict
         [(''id'', PInt 7), (''url'', PStr ''https://shop.example/p/7''),
          (''title'', PStr ''Kettle''), (''store'', PStr ''Other''),
          (''current_price'', PFloat (1999 / 100)),
          (''min_price_alert'', PNone), (''max_price_alert'', PNone),
          (''discord_webhook_url'', PStr []),
          (''status'', PStr ''in_stock''),
          (''last_checked_at'', PStr ''2024-05-01T12:00:00''),
          (''last_price_change'', PNone), (''alerts_sent'', PInt 0),
          (''created_at'', PStr ''2024-04-01T09:00:00''),
          (''updated_at'', PStr ''2024-04-02T10:00:00''),
          (''price_history_count'', PInt 3)]))"
  by (simp add: decode_defs decode_enhanced_def decode_old_def float_or_none_def
      iso_or_none_def success_row_16_def old_row_14_def example_env_def)

text \<open>
  Claim C1, amended. The decoder maps a row of length at least 17 whose first value is
  \<open>success\<close> with the enhanced schema: \<open>status\<close> is position 11 and \<open>created_at\<close>
  is the ISO text of position 15. A row of length 14 is decoded with the old mapping:
  \<open>status\<close> is position 7 and \<open>created_at\<close> the ISO text of position 11. The
  alternate enhanced mapping, with \<open>created_at\<close> from position 12, is applied to a row
  longer than 15 whose first value is not \<open>success\<close>. In each case the three price
  columns must convert with \<open>float\<close> (or be falsy) and the four timestamp columns must be
  datetimes (or falsy); the converted values are the ones named in the hypotheses.
\<close>

theorem decode_product_row_schemas:
  assumes "17 \<le> length r" and "r ! 0 = PStr ''success''"
    and "float_or_none env (r ! 6) = Inr r_price"
    and "float_or_none env (r ! 7) = Inr r_min"
    and "float_or_none env (r ! 8) = Inr r_max"
    and "iso_or_none (r ! 12) = Inr r_checked"
    and "iso_or_none (r ! 13) = Inr r_changed"
    and "iso_or_none (r ! 15) = Inr r_created"
    and "iso_or_none (r ! 16) = Inr r_updated"
    and "length q = 14"
    and "float_or_none env (q ! 4) = Inr q_price"
    and "float_or_none env (q ! 5) = Inr q_min"
    and "float_or_none env (q ! 6) = Inr q_max"
    and "iso_or_none (q ! 8) = Inr q_checked"
    and "iso_or_none (q ! 9) = Inr q_changed"
    and "iso_or_none (q ! 11) = Inr q_created"
    and "iso_or_none (q ! 12) = Inr q_updated"
    and "15 < length a" and "a ! 0 \<noteq> PStr ''success''"
    and "float_or_none env (a ! 4) = Inr a_price"
    and "float_or_none env (a ! 5) = Inr a_min"
    and "float_or_none env (a ! 6) = Inr a_max"
    and "iso_or_none (a ! 9) = Inr a_checked"
    and "iso_or_none (a ! 10) = Inr a_changed"
    and "iso_or_none (a ! 12) = Inr a_created"
    and "iso_or_none (a ! 13) = Inr a_updated"
  shows "decode_product_row env r =
     Inr (Some (PDict
       [(''id'', r ! 2), (''url'', r ! 3), (''title'', r ! 4), (''store'', r ! 5),
        (''current_price'', r_price), (''min_price_alert'', r_min),
        (''max_price_alert'', r_max),
        (''discord_webhook_url'', if truthy (r ! 9) then r ! 9 else PStr []),
        (''alerts_sent'', if truthy (r ! 10) then r ! 10 else PInt 0),
        (''status'', r ! 11),
        (''last_checked_at'', r_checked), (''last_price_change'', r_changed),
        (''sms_notifications_enabled'', PBool (r ! 14 \<noteq> PNone \<and> truthy (r ! 14))),
        (''created_at'', r_created), (''updated_at'', r_updated),
        (''price_history_count'', if length r > 17 then r ! 17 else PInt 0)]))
   \<and> decode_product_row env q =
     Inr (Some (PDict
       [(''id'', q ! 0), (''url'', q ! 1), (''title'', q ! 2), (''store'', q ! 3),
        (''current_price'', q_price), (''min_price_alert'', q_min),
        (''max_price_alert'', q_max),
        (''discord_webhook_url'', PStr []),
        (''status'', q ! 7),
        (''last_checked_at'', q_checked), (''last_price_change'', q_changed),
        (''alerts_sent'', if truthy (q ! 10) then q ! 10 else PInt 0),
        (''created_at'', q_created), (''updated_at'', q_updated),
        (''price_history_count'', q ! 13)]))
   \<and> decode_product_row env a =
     Inr (Some (PDict
       [(''id'', a ! 0), (''url'', a ! 1), (''title'', a ! 2), (''store'', a ! 3),
        (''current_price'', a_price), (''min_price_alert'', a_min),
        (''max_price_alert'', a_max),
        (''discord_webhook_url'', if truthy (a ! 7) then a ! 7 else PStr []),
        (''status'', a ! 8),
        (''last_checked_at'', a_checked), (''last_price_change'', a_changed),
        (''alerts_sent'', if truthy (a ! 11) then a ! 11 else PInt 0),
        (''created_at'', a_created), (''updated_at'', a_updated),
        (''price_history_count'', a ! 14)]))"
  using decode_success_row [OF assms(1-9)] decode_old_row [OF assms(10-17)]
    decode_alternate_row [OF assms(18-26)]
  by simp

theorem decode_product_row_schemas_witness:
  "decode_product_row (example_env no_account_db []) success_row_18 =
     Inr (Some (PDict
       [(''id'', PInt 7), (''url'', PStr ''https://shop.example/p/7''),
        (''title'', PStr ''Kettle''), (''store'', PStr ''Other''),
        (''current_price'', PFloat (1999 / 100)),
        (''min_price_alert'', PNone), (''max_price_alert'', PNone),
        (''discord_webhook_url'', PStr []), (''alerts_sent'', PInt 0),
        (''status'', PStr ''in_stock''),
        (''last_checked_at'', PStr ''2024-05-01T12:00:00''),
        (''last_price_change'', PNone),
        (''sms_notifications_enabled'', PBool False),
        (''created_at'', PStr ''2024-04-01T09:00:00''),
        (''updated_at'', PStr ''2024-04-02T10:00:00''),
        (''price_history_count'', PInt 3)]))
   \<and> dict_get (the (projr (decode_product_row (example_env no_account_db []) old_row_14)))
         ''created_at'' PNone = Inr (PStr ''2024-04-01T09:00:00'')
   \<and> dict_get (the (projr (decode_product_row (example_env no_account_db []) plain_row_16)))
         ''created_at'' PNone = Inr (PStr ''2024-04-01T09:00:00'')"
  using decode_product_row_schemas
    [of success_row_18 "example_env no_account_db []" "PFloat (1999 / 100)" PNone PNone
        "PStr ''2024-05-01T12:00:00''" PNone "PStr ''2024-04-01T09:00:00''"
        "PStr ''2024-04-02T10:00:00''"
        old_row_14 "PFloat (1999 / 100)" PNone PNone
        "PStr ''2024-05-01T12:00:00''" PNone "PStr ''2024-04-01T09:00:00''"
        "PStr ''2024-04-02T10:00:00''"
        plain_row_16 "PFloat (1999 / 100)" PNone PNone
        "PStr ''2024-05-01T12:00:00''" PNone "PStr ''2024-04-01T09:00:00''"
        "PStr ''2024-04-02T10:00:00''"]
  by (simp add: float_or_none_def iso_or_none_def success_row_18_def success_row_16_def
      old_row_14_def plain_row_16_def example_env_def)


section \<open>Properties of the dashboard handlers\<close>

lemmas add_product_defs = add_product_def jwt_required_def add_product_view_def
  add_product_body_def add_product_checked_def store_product_def get_jwt_identity_def


lemma add_product_fallback:
  assumes "req_method req \<noteq> ''OPTIONS''"
    and "req_bearer req = Some encoded"
    and "jwt_decode env encoded = Inr (Token False ident claims)"
    and "py_int ident = Inr uid"
    and "req_json req = Inr (PDict d)" and "d \<noteq> []"
    and "dict_get (PDict d) ''url'' (PStr []) = Inr (PStr u)"
    and "dict_get (PDict d) ''title'' (PStr []) = Inr (PStr ti)"
    and "dict_get (PDict d) ''discord_webhook_url'' (PStr []) = Inr (PStr dw)"
    and "dict_get (PDict d) ''sms_notifications_enabled'' (PBool False) = Inr sms"
    and "py_strip u \<noteq> []" and "validate_url env (py_strip u)"
    and "py_strip dw = [] \<or> startswith (py_strip dw) ''https://discord.com/api/webhooks/''
           \<or> startswith (py_strip dw) ''https://discordapp.com/api/webhooks/''"
    and "(if py_strip ti = []
          then bind_e (extract_product_info env (py_strip u)) (\<lambda>info. Inr (snd info))
          else Inr (py_strip ti)) = Inr title"
    and "db env w ''add_user_product_with_webhook''
           [(''p_user_id'', PInt uid), (''p_product_url'', PStr (py_strip u)),
            (''p_product_title'', PStr title),
            (''p_discord_webhook_url'', if py_strip dw \<noteq> [] then PStr (py_strip dw) else PNone),
            (''p_sms_notifications_enabled'', sms)] = Inl e"
    and "db env (w @ [DbCall ''add_user_product_with_webhook''
           [(''p_user_id'', PInt uid), (''p_product_url'', PStr (py_strip u)),
            (''p_product_title'', PStr title),
            (''p_discord_webhook_url'', if py_strip dw \<noteq> [] then PStr (py_strip dw) else PNone),
            (''p_sms_notifications_enabled'', sms)]])
           ''add_user_product''
           [(''p_user_id'', PInt uid), (''p_product_url'', PStr (py_strip u)),
            (''p_product_title'', PStr title)] = Inr result"
  shows "add_product env req w =
     (case added_product_response uid (py_strip u) title result of
        Inl e' \<Rightarrow> Inr (dashboard_response [(''error'', PStr ''Failed to add product'')] 500)
      | Inr resp \<Rightarrow> Inr resp,
      w @ [DbCall ''add_user_product_with_webhook''
             [(''p_user_id'', PInt uid), (''p_product_url'', PStr (py_strip u)),
              (''p_product_title'', PStr title),
              (''p_discord_webhook_url'', if py_strip dw \<noteq> [] then PStr (py_strip dw) else PNone),
              (''p_sms_notifications_enabled'', sms)],
           DbCall ''add_user_product''
             [(''p_user_id'', PInt uid), (''p_product_url'', PStr (py_strip u)),
              (''p_product_title'', PStr title)]])"
  using assms
  by (auto simp add: add_product_defs prog_defs split: sum.splits)

lemma add_product_enhanced:
  assumes "req_method req \<noteq> ''OPTIONS''"
    and "req_bearer req = Some encoded"
    and "jwt_decode env encoded = Inr (Token False ident claims)"
    and "py_int ident = Inr uid"
    and "req_json req = Inr (PDict d)" and "d \<noteq> []"
    and "dict_get (PDict d) ''url'' (PStr []) = Inr (PStr u)"
    and "dict_get (PDict d) ''title'' (PStr []) = Inr (PStr ti)"
    and "dict_get (PDict d) ''discord_webhook_url'' (PStr []) = Inr (PStr dw)"
    and "dict_get (PDict d) ''sms_notifications_enabled'' (PBool False) = Inr sms"
    and "py_strip u \<noteq> []" and "validate_url env (py_strip u)"
    and "py_strip dw = [] \<or> startswith (py_strip dw) ''https://discord.com/api/webhooks/''
           \<or> startswith (py_strip dw) ''https://discordapp.com/api/webhooks/''"
    and "(if py_strip ti = []
          then bind_e (extract_product_info env (py_strip u)) (\<lambda>info. Inr (snd info))
          else Inr (py_strip ti)) = Inr title"
    and "db env w ''add_user_product_with_webhook''
           [(''p_user_id'', PInt uid), (''p_product_url'', PStr (py_strip u)),
            (''p_product_title'', PStr title),
            (''p_discord_webhook_url'', if py_strip dw \<noteq> [] then PStr (py_strip dw) else PNone),
            (''p_sms_notifications_enabled'', sms)] = Inr result"
  shows "fst (add_product env req w) =
     (case added_product_response uid (py_strip u) title result of
        Inl e' \<Rightarrow> Inr (dashboard_response [(''error'', PStr ''Failed to add product'')] 500)
      | Inr resp \<Rightarrow> Inr resp)"
  using assms
  by (auto simp add: add_product_defs prog_defs split: sum.splits)


lemmas get_user_products_defs = get_user_products_def jwt_required_def get_user_products_view_def
  get_user_products_body_def fetch_user_products_def get_jwt_identity_def

lemma get_user_products_fallback:
  assumes "req_method req \<noteq> ''OPTIONS''"
    and "req_bearer req = Some encoded"
    and "jwt_decode env encoded = Inr (Token False ident claims)"
    and "py_int ident = Inr uid"
    and "db env w ''get_user_products_with_data'' [(''p_user_id'', PInt uid)] = Inl e"
    and "db env (w @ [DbCall ''get_user_products_with_data'' [(''p_user_id'', PInt uid)]])
           ''get_user_products'' [(''p_user_id'', PInt uid)] = Inr result"
  shows "get_user_products env req w =
     (Inr (if result = [] then no_products
           else case products_of_result env uid result of
                  Inl e' \<Rightarrow> products_error env e'
                | Inr resp \<Rightarrow> resp),
      w @ [DbCall ''get_user_products_with_data'' [(''p_user_id'', PInt uid)],
           DbCall ''get_user_products'' [(''p_user_id'', PInt uid)]])"
  using assms
  by (auto simp add: get_user_products_defs prog_defs split: sum.splits)

lemma get_user_products_enhanced:
  assumes "req_method req \<noteq> ''OPTIONS''"
    and "req_bearer req = Some encoded"
    and "jwt_decode env encoded = Inr (Token False ident claims)"
    and "py_int ident = Inr uid"
    and "db env w ''get_user_products_with_data'' [(''p_user_id'', PInt uid)] = Inr result"
  shows "get_user_products env req w =
     (Inr (if result = [] then no_products
           else case products_of_result env uid result of
                  Inl e' \<Rightarrow> products_error env e'
                | Inr resp \<Rightarrow> resp),
      w @ [DbCall ''get_user_products_with_data'' [(''p_user_id'', PInt uid)]])"
  using assms
  by (auto simp add: get_user_products_defs prog_defs split: sum.splits)


lemma validate_url_db: "validate_url (env\<lparr>db := d\<rparr>) url = validate_url env url"
  by (simp add: validate_url_def)

lemma extract_product_info_db:
  "extract_product_info (env\<lparr>db := d\<rparr>) url = extract_product_info env url"
  by (simp add: extract_product_info_def)

lemma py_float_db: "py_float (env\<lparr>db := d\<rparr>) v = py_float env v"
  by (cases v) simp_all

lemma float_or_none_db: "float_or_none (env\<lparr>db := d\<rparr>) = float_or_none env"
  by (rule ext) (simp add: float_or_none_def py_float_db)

lemma decode_product_row_db:
  "decode_product_row (env\<lparr>db := d\<rparr>) r = decode_product_row env r"
  by (simp only: decode_product_row_def decode_enhanced_def decode_alternate_def decode_old_def
      float_or_none_db)

lemma parse_products_db: "parse_products (env\<lparr>db := d\<rparr>) rs = parse_products env rs"
  by (induction rs) (simp_all add: decode_product_row_db)

lemma products_of_result_db:
  "products_of_result (env\<lparr>db := d\<rparr>) uid result = products_of_result env uid result"
  by (simp add: products_of_result_def parse_products_db)

lemma products_error_db: "products_error (env\<lparr>db := d\<rparr>) e = products_error env e"
  by (simp add: products_error_def)

text \<open>
  Claim C10. Take an add-product request that passes the checks of the handler (a token for
  user \<open>uid\<close>, a JSON object with a valid URL, a title, a Discord webhook URL that is empty
  or well-formed, an SMS flag). If the call of \<open>add_user_product_with_webhook\<close> raises,
  the handler next calls \<open>add_user_product\<close> with the user, the URL and the title only
  (the title being the given one, or the one \<open>extract_product_info\<close> derives from the URL
  when none is given; the webhook URL and the SMS flag are not passed on), and it answers
  exactly what it would have answered had the enhanced procedure itself returned the rows the old one
  returned: nothing in the response tells the two runs apart. For reads,
  \<open>get_user_products\<close> does the same: when \<open>get_user_products_with_data\<close> raises it
  calls \<open>get_user_products\<close> and answers as if the enhanced procedure had returned those
  rows.
\<close>

theorem enhanced_procedure_fallback_is_silent:
  assumes "req_method req \<noteq> ''OPTIONS''"
    and "req_bearer req = Some encoded"
    and "jwt_decode env encoded = Inr (Token False ident claims)"
    and "py_int ident = Inr uid"
    and "req_json req = Inr (PDict d)" and "d \<noteq> []"
    and "dict_get (PDict d) ''url'' (PStr []) = Inr (PStr u)"
    and "dict_get (PDict d) ''title'' (PStr []) = Inr (PStr ti)"
    and "dict_get (PDict d) ''discord_webhook_url'' (PStr []) = Inr (PStr dw)"
    and "dict_get (PDict d) ''sms_notifications_enabled'' (PBool False) = Inr sms"
    and "py_strip u \<noteq> []" and "validate_url env (py_strip u)"
    and "py_strip dw = [] \<or> startswith (py_strip dw) ''https://discord.com/api/webhooks/''
           \<or> startswith (py_strip dw) ''https://discordapp.com/api/webhooks/''"
    and "(if py_strip ti = []
          then bind_e (extract_product_info env (py_strip u)) (\<lambda>info. Inr (snd info))
          else Inr (py_strip ti)) = Inr title"
    and "db env w ''add_user_product_with_webhook''
           [(''p_user_id'', PInt uid), (''p_product_url'', PStr (py_strip u)),
            (''p_product_title'', PStr title),
            (''p_discord_webhook_url'', if py_strip dw \<noteq> [] then PStr (py_strip dw) else PNone),
            (''p_sms_notifications_enabled'', sms)] = Inl e"
    and "db env (w @ [DbCall ''add_user_product_with_webhook''
           [(''p_user_id'', PInt uid), (''p_product_url'', PStr (py_strip u)),
            (''p_product_title'', PStr title),
            (''p_discord_webhook_url'', if py_strip dw \<noteq> [] then PStr (py_strip dw) else PNone),
            (''p_sms_notifications_enabled'', sms)]])
           ''add_user_product''
           [(''p_user_id'', PInt uid), (''p_product_url'', PStr (py_strip u)),
            (''p_product_title'', PStr title)] = Inr result"
    and "db_direct w2 ''add_user_product_with_webhook''
           [(''p_user_id'', PInt uid), (''p_product_url'', PStr (py_strip u)),
            (''p_product_title'', PStr title),
            (''p_discord_webhook_url'', if py_strip dw \<noteq> [] then PStr (py_strip dw) else PNone),
            (''p_sms_notifications_enabled'', sms)] = Inr result"
    and "req_method req_g \<noteq> ''OPTIONS''"
    and "req_bearer req_g = Some encoded"
    and "db env w_g ''get_user_products_with_data'' [(''p_user_id'', PInt uid)] = Inl e_g"
    and "db env (w_g @ [DbCall ''get_user_products_with_data'' [(''p_user_id'', PInt uid)]])
           ''get_user_products'' [(''p_user_id'', PInt uid)] = Inr rows"
    and "db_direct w3 ''get_user_products_with_data'' [(''p_user_id'', PInt uid)] = Inr rows"
  shows "snd (add_product env req w) =
           w @ [DbCall ''add_user_product_with_webhook''
                  [(''p_user_id'', PInt uid), (''p_product_url'', PStr (py_strip u)),
                   (''p_product_title'', PStr title),
                   (''p_discord_webhook_url'',
                      if py_strip dw \<noteq> [] then PStr (py_strip dw) else PNone),
                   (''p_sms_notifications_enabled'', sms)],
                DbCall ''add_user_product''
                  [(''p_user_id'', PInt uid), (''p_product_url'', PStr (py_strip u)),
                   (''p_product_title'', PStr title)]]
         \<and> fst (add_product env req w) = fst (add_product (env\<lparr>db := db_direct\<rparr>) req w2)
         \<and> snd (get_user_products env req_g w_g) =
           w_g @ [DbCall ''get_user_products_with_data'' [(''p_user_id'', PInt uid)],
                  DbCall ''get_user_products'' [(''p_user_id'', PInt uid)]]
         \<and> fst (get_user_products env req_g w_g) =
             fst (get_user_products (env\<lparr>db := db_direct\<rparr>) req_g w3)"
proof -
  have direct_add: "fst (add_product (env\<lparr>db := db_direct\<rparr>) req w2) =
     (case added_product_response uid (py_strip u) title result of
        Inl e' \<Rightarrow> Inr (dashboard_response [(''error'', PStr ''Failed to add product'')] 500)
      | Inr resp \<Rightarrow> Inr resp)"
    using assms(1-14,17)
    by (intro add_product_enhanced [where encoded = encoded and ident = ident
          and claims = claims and d = d and dw = dw and sms = sms])
       (auto simp add: validate_url_db extract_product_info_db split: if_splits)
  have direct_get: "get_user_products (env\<lparr>db := db_direct\<rparr>) req_g w3 =
     (Inr (if rows = [] then no_products
           else case products_of_result env uid rows of
                  Inl e' \<Rightarrow> products_error env e'
                | Inr resp \<Rightarrow> resp),
      w3 @ [DbCall ''get_user_products_with_data'' [(''p_user_id'', PInt uid)]])"
    using get_user_products_enhanced [of req_g encoded "env\<lparr>db := db_direct\<rparr>" ident claims
        uid w3 rows] assms(3,4,18,19,22)
    by (simp add: products_of_result_db products_error_db cong: sum.case_cong)
  show ?thesis
    using add_product_fallback [OF assms(1-16)] direct_add
      get_user_products_fallback [OF assms(18,19,3,4,20,21)] direct_get
    by simp
qed

theorem enhanced_procedure_fallback_is_silent_witness:
  "snd (add_product (example_env enhanced_missing_db [(''signed-42'', example_access_token)])
          (post_json_with_bearer ''signed-42''
             [(''url'', PStr ''https://shop.example/p/7''), (''title'', PStr ''Kettle''),
              (''discord_webhook_url'', PStr ''https://discord.com/api/webhooks/1/abc''),
              (''sms_notifications_enabled'', PBool True)]) [])
     = [DbCall ''add_user_product_with_webhook''
          [(''p_user_id'', PInt 42), (''p_product_url'', PStr ''https://shop.example/p/7''),
           (''p_product_title'', PStr ''Kettle''),
           (''p_discord_webhook_url'', PStr ''https://discord.com/api/webhooks/1/abc''),
           (''p_sms_notifications_enabled'', PBool True)],
        DbCall ''add_user_product''
          [(''p_user_id'', PInt 42), (''p_product_url'', PStr ''https://shop.example/p/7''),
           (''p_product_title'', PStr ''Kettle'')]]
   \<and> snd (get_user_products (example_env enhanced_missing_db [(''signed-42'', example_access_token)])
          (get_with_bearer ''signed-42'') [])
     = [DbCall ''get_user_products_with_data'' [(''p_user_id'', PInt 42)],
        DbCall ''get_user_products'' [(''p_user_id'', PInt 42)]]"
  using enhanced_procedure_fallback_is_silent
    [of "post_json_with_bearer ''signed-42''
             [(''url'', PStr ''https://shop.example/p/7''), (''title'', PStr ''Kettle''),
              (''discord_webhook_url'', PStr ''https://discord.com/api/webhooks/1/abc''),
              (''sms_notifications_enabled'', PBool True)]"
        "''signed-42''"
        "example_env enhanced_missing_db [(''signed-42'', example_access_token)]"
        "PStr ''42''"
        "[(''email'', PStr ''ann@example.com''), (''full_name'', PStr ''Ann Lee''),
          (''email_verified'', PBool True)]"
        42
        "[(''url'', PStr ''https://shop.example/p/7''), (''title'', PStr ''Kettle''),
              (''discord_webhook_url'', PStr ''https://discord.com/api/webhooks/1/abc''),
              (''sms_notifications_enabled'', PBool True)]"
        "''https://shop.example/p/7''" "''Kettle''" "''https://discord.com/api/webhooks/1/abc''"
        "PBool True" "''Kettle''" "[]"
        "Exn SQLAlchemyError ''PROCEDURE stockwatch.add_user_product_with_webhook does not exist''"
        "[[PStr ''success'', PStr ''Product added'', PInt 9]]"
        "\<lambda>w. enhanced_present_db" "[]"
        "get_with_bearer ''signed-42''" "[]"
        "Exn SQLAlchemyError ''PROCEDURE stockwatch.get_user_products_with_data does not exist''"
        "[old_row_14]" "[]"]
  by (simp add: example_env_def enhanced_missing_db_def enhanced_present_db_def
      example_access_token_def post_json_with_bearer_def get_with_bearer_def validate_url_def
      py_strip_def py_isspace_def int_of_str_def int_strip_def int_isspace_def py_isdigit_def)

text \<open>
  Claim C3 does not hold of \<open>get_user_products\<close>: its \<open>except Exception\<close> block puts
  \<open>str(e)\<close> and \<open>traceback.format_exc()\<close> into the JSON body. Here the enhanced
  procedure reports \<open>last_checked_at\<close> as text; \<open>.isoformat()\<close> raises an AttributeError,
  which the row decoder does not catch, and the 500 response carries the exception's text
  and the traceback.
\<close>

theorem get_user_products_exposes_exception_text:
  "fst (get_user_products
          (example_env text_timestamp_db [(''signed-42'', example_access_token)])
          (get_with_bearer ''signed-42'') [])
     = Inr \<lparr>body = PDict
              [(''error'', PStr ''Failed to load products''),
               (''debug'', PStr ''object has no attribute isoformat''),
               (''traceback'',
                PStr ''Traceback (most recent call last): object has no attribute isoformat'')],
            status = 500,
            headers = [(''Access-Control-Allow-Origin'', ''*''),
                       (''Access-Control-Allow-Methods'', ''GET,POST,PUT,DELETE,OPTIONS''),
                       (''Access-Control-Allow-Headers'', ''Content-Type,Authorization'')]\<rparr>"
  by (simp add: get_user_products_defs prog_defs products_of_result_def products_error_def
      dashboard_response_def decode_defs decode_enhanced_def float_or_none_def iso_or_none_def
      example_env_def text_timestamp_db_def example_access_token_def get_with_bearer_def
      success_row_18_def success_row_16_def
      py_strip_def py_isspace_def int_of_str_def int_strip_def int_isspace_def py_isdigit_def)


section \<open>Properties of the checkout handler\<close>































end
